theory Spec2Isabelle
  imports Main
begin

section \<open>The download script \<^verbatim>\<open>scripts/finam-download.py\<close>\<close>

text \<open>
  The script is one function, \<^verbatim>\<open>main\<close>: it validates its options, resolves the
  contracts to download and then, for each contract in turn, plans the date range,
  asks the exporter for the data and saves it. The model follows the function from
  top to bottom. What the function does to the world is made explicit:
  \<^item> the local files are a map from paths to file contents, passed through the loop;
  \<^item> the variable \<^verbatim>\<open>startdate\<close>, which the loop body assigns, is passed through the
    loop as well;
  \<^item> every call to the exporter, every file access, every log line and every sleep is
    an event of a trace, in the order in which the script performs them;
  \<^item> an exception that leaves \<^verbatim>\<open>main\<close> is an outcome \<open>Raised\<close>.

  The exporter (package \<^verbatim>\<open>finam\<close>), pandas, \<^verbatim>\<open>datetime\<close> and the file system are
  not part of the script. The exporter's answers, the textual date of a row, the
  parser \<^verbatim>\<open>strptime\<close> and the failure of a write are parameters (record \<open>env\<close>);
  \<^verbatim>\<open>os.path.join\<close>, \<^verbatim>\<open>pd.concat\<close> and \<^verbatim>\<open>drop_duplicates\<close> are modelled by what
  their documentation says.
\<close>

subsection \<open>Options, contracts and data frames\<close>

datatype datetime = Datetime nat nat nat

text \<open>The option \<^verbatim>\<open>--append\<close> is a \<^verbatim>\<open>click.Choice(['y', 'n'])\<close>, absent when not given.\<close>

datatype choice = Choice_y | Choice_n

record config =
  contracts :: "string list option"
  market :: "string option"
  timeframe :: string
  destdir :: string
  lineterm :: string
  delay :: int
  startdate :: datetime
  enddate :: datetime
  skiperr :: bool
  ext :: string
  fileformat :: string
  append_arg :: "choice option"

text \<open>A row of the exporter's lookup table, as \<^verbatim>\<open>main\<close> reads it: id, code, market.\<close>

record contract =
  c_id :: nat
  c_code :: string
  c_market :: nat

text \<open>
  A data frame is the sequence of its rows, each with its index label. The label is
  not a column: \<^verbatim>\<open>drop_duplicates\<close> compares the columns only, and \<^verbatim>\<open>pd.concat\<close>
  keeps the labels of both frames.
\<close>

type_synonym 'r frame = "(nat \<times> 'r) list"

datatype 'r content =
    PickleFile "string option" "'r frame"
  | CsvFile "string option" string "'r list"
  | PartialFile

type_synonym 'r files = "string \<Rightarrow> 'r content option"

datatype error =
    BadParameter string
  | SystemExit int
  | FinamExportError string
  | FinamObjectNotFoundError
  | IndexError
  | ValueError
  | UnpicklingError
  | OSError

datatype outcome = Completed | Raised error

datatype logmsg =
    Handling string
  | UnknownContract string
  | DownloadingContract contract
  | FoundLocalFile string
  | NoLocalFile
  | LinesDownloaded nat
  | ExportFailed string
  | RecordsAdded int nat
  | SavedTo string
  | Sleeping int

datatype event =
    Lookup "string option" "string option"
  | Export nat datetime datetime string nat
  | ReadPickle string
  | WriteCsv string
  | WritePickle string
  | WriteFailed string
  | Sleep int
  | LogInfo logmsg
  | LogError logmsg

text \<open>
  The parameters. \<open>lookup\<close> answers \<^verbatim>\<open>exporter.lookup(code=..., market=...)\<close>, \<open>None\<close>
  for \<^verbatim>\<open>FinamObjectNotFoundError\<close>; \<open>download\<close> answers \<^verbatim>\<open>exporter.download\<close>,
  \<open>Inl\<close> for a \<^verbatim>\<open>FinamExportError\<close>; \<open>date_str\<close> is \<^verbatim>\<open>row.astype(str)['<DATE>']\<close>;
  \<open>strptime\<close> parses it with the format \<^verbatim>\<open>%Y%m%d\<close>, \<open>None\<close> for \<^verbatim>\<open>ValueError\<close>;
  \<open>is_market\<close> says which market values of a lookup row the enumeration \<^verbatim>\<open>Market\<close> has
  (for the others \<^verbatim>\<open>Market(contract.market)\<close> raises \<^verbatim>\<open>ValueError\<close>);
  \<open>write_breaks\<close> says for which paths a write breaks off after the file has been
  opened for writing.
\<close>

record 'r env =
  lookup :: "string option \<Rightarrow> string option \<Rightarrow> contract list option"
  download :: "nat \<Rightarrow> datetime \<Rightarrow> datetime \<Rightarrow> string \<Rightarrow> nat \<Rightarrow> string + 'r frame"
  date_str :: "'r \<Rightarrow> string"
  strptime :: "string \<Rightarrow> datetime option"
  is_market :: "nat \<Rightarrow> bool"
  write_breaks :: "string \<Rightarrow> bool"

text \<open>What the loop body can change: the variable \<^verbatim>\<open>startdate\<close> and the files.\<close>

record 'r state =
  st_startdate :: datetime
  st_fs :: "'r files"

subsection \<open>Library functions\<close>

text \<open>Python's truth value of \<^verbatim>\<open>None\<close>, a list or a string.\<close>

definition truthy :: "'a list option \<Rightarrow> bool" where
  "truthy v = (case v of None \<Rightarrow> False | Some xs \<Rightarrow> xs \<noteq> [])"

text \<open>\<^verbatim>\<open>posixpath.join\<close> of two components.\<close>

definition os_path_join :: "string \<Rightarrow> string \<Rightarrow> string" where
  "os_path_join a b =
     (if take 1 b = ''/'' then b
      else if a = [] \<or> last a = CHR ''/'' then a @ b
      else a @ ''/'' @ b)"

text \<open>
  \<^verbatim>\<open>DataFrame.duplicated()\<close> marks a row when an earlier row has the same values in
  all columns; \<^verbatim>\<open>drop_duplicates()\<close> keeps the rows that are not marked.
\<close>

fun duplicated :: "'r list \<Rightarrow> 'r frame \<Rightarrow> bool list" where
  "duplicated seen [] = []"
| "duplicated seen (x # xs) = (snd x \<in> set seen) # duplicated (snd x # seen) xs"

definition drop_duplicates :: "'r frame \<Rightarrow> 'r frame" where
  "drop_duplicates df = map fst (filter (\<lambda>(x, dup). \<not> dup) (zip df (duplicated [] df)))"

text \<open>\<^verbatim>\<open>pd.read_pickle\<close>: only a completely written pickle can be loaded.\<close>

definition read_pickle :: "'r content \<Rightarrow> 'r frame option" where
  "read_pickle f = (case f of PickleFile c df \<Rightarrow> Some df | _ \<Rightarrow> None)"

text \<open>
  \<^verbatim>\<open>to_csv\<close> and \<^verbatim>\<open>to_pickle\<close> are handed the destination path itself: they open
  it for writing, which empties the file, and write into it. A write that breaks off
  leaves what was written so far.
\<close>

definition write_file :: "'r env \<Rightarrow> 'r state \<Rightarrow> string \<Rightarrow> 'r content \<Rightarrow> 'r state + 'r state" where
  "write_file env st path content =
     (if write_breaks env path
      then Inl (st\<lparr>st_fs := (st_fs st)(path \<mapsto> PartialFile)\<rparr>)
      else Inr (st\<lparr>st_fs := (st_fs st)(path \<mapsto> content)\<rparr>))"

subsection \<open>The function \<^verbatim>\<open>main\<close>\<close>

text \<open>Line 95: \<^verbatim>\<open>append_flag = append is not None and append == 'y'\<close>.\<close>

definition append_flag :: "config \<Rightarrow> bool" where
  "append_flag cfg = (append_arg cfg \<noteq> None \<and> append_arg cfg = Some Choice_y)"

text \<open>Lines 104-106: the keyword arguments of every lookup.\<close>

definition market_filter :: "config \<Rightarrow> string option" where
  "market_filter cfg = (if truthy (market cfg) then market cfg else None)"

text \<open>
  Lines 121-136: the destination path and the compression. The four tests are an
  \<^verbatim>\<open>if\<close>/\<^verbatim>\<open>elif\<close> followed by two separate \<^verbatim>\<open>if\<close>s.
\<close>

definition destpath_compression :: "config \<Rightarrow> contract \<Rightarrow> string \<times> string option" where
  "destpath_compression cfg c =
     (let destpath = os_path_join (destdir cfg) (c_code c @ ''-'' @ timeframe cfg);
          compression = None;
          (destpath, compression) =
             (if fileformat cfg = ''CSV'' then (destpath @ ''.'' @ ext cfg, None)
              else if fileformat cfg = ''CSVGZ'' then (destpath @ ''.csv.gz'', Some ''gzip'')
              else (destpath, compression));
          (destpath, compression) =
             (if fileformat cfg = ''PKL'' then (destpath @ ''.pkl'', None)
              else (destpath, compression));
          (destpath, compression) =
             (if fileformat cfg = ''PKLXZ'' then (destpath @ ''.pkl.xz'', Some ''xz'')
              else (destpath, compression))
      in (destpath, compression))"

text \<open>
  Lines 111-148: the lookup of one contract, its destination, and in append mode the
  local data. The result is either an exception with the events so far, or the
  contract, the destination, the compression, \<^verbatim>\<open>df_local\<close>, the state and the events.
  Without append mode \<^verbatim>\<open>df_local\<close> is not assigned and never read; the model carries
  the empty frame there.
\<close>

type_synonym 'r prepared = "contract \<times> string \<times> string option \<times> 'r frame \<times> 'r state \<times> event list"

definition prepare :: "config \<Rightarrow> 'r env \<Rightarrow> 'r state \<Rightarrow> string \<Rightarrow> (error \<times> event list) + 'r prepared" where
  "prepare cfg env st contract_code =
     (let ev0 = [LogInfo (Handling contract_code), Lookup (Some contract_code) (market_filter cfg)] in
      case lookup env (Some contract_code) (market_filter cfg) of
        None \<Rightarrow> Inl (SystemExit 1, ev0 @ [LogError (UnknownContract contract_code)])
      | Some [] \<Rightarrow> Inl (IndexError, ev0)
      | Some (c # _) \<Rightarrow>
          (let ev1 = ev0 @ [LogInfo (DownloadingContract c)];
               (destpath, compression) = destpath_compression cfg c in
           if append_flag cfg then
             (case st_fs st destpath of
                Some f \<Rightarrow>
                  (case read_pickle f of
                     None \<Rightarrow> Inl (UnpicklingError, ev1 @ [ReadPickle destpath])
                   | Some [] \<Rightarrow> Inl (IndexError, ev1 @ [ReadPickle destpath])
                   | Some (r # rs) \<Rightarrow>
                       (let df_local = r # rs;
                            last_existing_date = date_str env (snd (last df_local)) in
                        case strptime env last_existing_date of
                          None \<Rightarrow> Inl (ValueError, ev1 @ [ReadPickle destpath])
                        | Some d \<Rightarrow>
                            Inr (c, destpath, compression, df_local, st\<lparr>st_startdate := d\<rparr>,
                                 ev1 @ [ReadPickle destpath, LogInfo (FoundLocalFile last_existing_date)])))
              | None \<Rightarrow> Inr (c, destpath, compression, [], st, ev1 @ [LogInfo NoLocalFile]))
           else Inr (c, destpath, compression, [], st, ev1)))"

datatype step = Next | Stop error

text \<open>Lines 166-182: saving the data, and the pause.\<close>

definition pause :: "config \<Rightarrow> event list" where
  "pause cfg = (if delay cfg > 0 then [LogInfo (Sleeping (delay cfg)), Sleep (delay cfg)] else [])"

definition save :: "config \<Rightarrow> 'r env \<Rightarrow> 'r prepared \<Rightarrow> 'r frame \<Rightarrow> step \<times> 'r state \<times> event list" where
  "save cfg env p data =
     (case p of (c, destpath, compression, df_local, st, ev) \<Rightarrow>
        if take 3 (fileformat cfg) = ''CSV'' then
          (case write_file env st destpath (CsvFile compression (lineterm cfg) (map snd data)) of
             Inl st' \<Rightarrow> (Stop OSError, st', ev @ [WriteFailed destpath])
           | Inr st' \<Rightarrow> (Next, st', ev @ [WriteCsv destpath, LogInfo (SavedTo destpath)] @ pause cfg))
        else
          (let (data, ev) =
                 (if append_flag cfg then
                    (let initial_cnt = length df_local;
                         data = drop_duplicates (df_local @ data);
                         result_cnt = length data
                     in (data, ev @ [LogInfo (RecordsAdded (int result_cnt - int initial_cnt) initial_cnt)]))
                  else (data, ev)) in
           if take 3 (fileformat cfg) = ''PKL'' then
             (case write_file env st destpath (PickleFile compression data) of
                Inl st' \<Rightarrow> (Stop OSError, st', ev @ [WriteFailed destpath])
              | Inr st' \<Rightarrow> (Next, st', ev @ [WritePickle destpath, LogInfo (SavedTo destpath)] @ pause cfg))
           else (Next, st, ev @ [LogInfo (SavedTo destpath)] @ pause cfg)))"

text \<open>
  Lines 151-164: the export request, and what happens when it fails. The arguments
  of the call are evaluated first: \<^verbatim>\<open>Timeframe[timeframe]\<close> is the member that the
  option was validated against, and \<^verbatim>\<open>Market(contract.market)\<close> (line 156) raises
  \<^verbatim>\<open>ValueError\<close> for a market value that the enumeration does not have. Then the
  exporter is not called, and the error leaves \<^verbatim>\<open>main\<close>: line 159 catches a
  \<^verbatim>\<open>FinamExportError\<close> only.
\<close>

definition fetch_and_save :: "config \<Rightarrow> 'r env \<Rightarrow> 'r prepared \<Rightarrow> step \<times> 'r state \<times> event list" where
  "fetch_and_save cfg env p =
     (case p of (c, destpath, compression, df_local, st, ev) \<Rightarrow>
        if \<not> is_market env (c_market c) then (Stop ValueError, st, ev)
        else
          (let ev = ev @ [Export (c_id c) (st_startdate st) (enddate cfg) (timeframe cfg) (c_market c)] in
           case download env (c_id c) (st_startdate st) (enddate cfg) (timeframe cfg) (c_market c) of
             Inl e \<Rightarrow>
               if skiperr cfg then (Next, st, ev @ [LogError (ExportFailed e)])
               else (Stop (FinamExportError e), st, ev)
           | Inr data \<Rightarrow>
               save cfg env (c, destpath, compression, df_local, st, ev @ [LogInfo (LinesDownloaded (length data))]) data))"

text \<open>Lines 110-182: the body of the loop, and the loop.\<close>

definition handle_contract :: "config \<Rightarrow> 'r env \<Rightarrow> 'r state \<Rightarrow> string \<Rightarrow> step \<times> 'r state \<times> event list" where
  "handle_contract cfg env st contract_code =
     (case prepare cfg env st contract_code of
        Inl (e, ev) \<Rightarrow> (Stop e, st, ev)
      | Inr p \<Rightarrow> fetch_and_save cfg env p)"

fun run_contracts :: "config \<Rightarrow> 'r env \<Rightarrow> 'r state \<Rightarrow> string list \<Rightarrow> outcome \<times> 'r state \<times> event list" where
  "run_contracts cfg env st [] = (Completed, st, [])"
| "run_contracts cfg env st (contract_code # rest) =
     (case handle_contract cfg env st contract_code of
        (Stop e, st', ev) \<Rightarrow> (Raised e, st', ev)
      | (Next, st', ev) \<Rightarrow>
          (case run_contracts cfg env st' rest of (r, st'', ev') \<Rightarrow> (r, st'', ev @ ev')))"

text \<open>
  Lines 92-182. The two checks come first (lines 98-102); then, when only a market is
  given, the codes of the whole market are looked up (lines 105-108, where a
  \<^verbatim>\<open>FinamObjectNotFoundError\<close> is not caught); then the loop. The construction of the
  exporter in line 96 is not an event: the trace records the calls of \<^verbatim>\<open>lookup\<close> and
  \<^verbatim>\<open>download\<close>.
\<close>

definition contract_codes :: "string list option \<Rightarrow> string list" where
  "contract_codes v = (case v of None \<Rightarrow> [] | Some xs \<Rightarrow> xs)"

definition main :: "config \<Rightarrow> 'r env \<Rightarrow> 'r files \<Rightarrow> outcome \<times> 'r files \<times> event list" where
  "main cfg env files =
     (if \<not> (truthy (contracts cfg) \<or> truthy (market cfg)) then
        (Raised (BadParameter ''Neither contracts nor market is specified''), files, [])
      else if append_arg cfg \<noteq> None \<and> take 3 (fileformat cfg) = ''CSV'' then
        (Raised (BadParameter ''Cannot append to csv file''), files, [])
      else
        (let st = \<lparr>st_startdate = startdate cfg, st_fs = files\<rparr> in
         if truthy (market cfg) \<and> \<not> truthy (contracts cfg) then
           (case lookup env None (market_filter cfg) of
              None \<Rightarrow> (Raised FinamObjectNotFoundError, files, [Lookup None (market_filter cfg)])
            | Some found \<Rightarrow>
                (case run_contracts cfg env st (map c_code found) of
                   (r, st', ev) \<Rightarrow> (r, st_fs st', Lookup None (market_filter cfg) # ev)))
         else
           (case run_contracts cfg env st (contract_codes (contracts cfg)) of
              (r, st', ev) \<Rightarrow> (r, st_fs st', ev))))"

subsection \<open>The merge, in the words of the specification\<close>

text \<open>
  The specification of the merge: concatenate the local rows and the downloaded rows,
  then remove every row whose columns all equal those of another row, keeping the
  first occurrence in its position. Position \<open>i\<close> stays when no earlier position holds
  the same columns.
\<close>

definition spec_dedup :: "'r frame \<Rightarrow> 'r frame" where
  "spec_dedup df = map (\<lambda>i. df ! i) (filter (\<lambda>i. \<forall>j<i. snd (df ! j) \<noteq> snd (df ! i)) [0..<length df])"

definition spec_merge :: "'r frame \<Rightarrow> 'r frame \<Rightarrow> 'r frame" where
  "spec_merge df_local data = spec_dedup (df_local @ data)"

text \<open>For the proofs: \<open>drop_duplicates\<close> with any rows already seen.\<close>

definition dd_from :: "'r list \<Rightarrow> 'r frame \<Rightarrow> 'r frame" where
  "dd_from seen df = map fst (filter (\<lambda>(x, dup). \<not> dup) (zip df (duplicated seen df)))"


subsection \<open>Reading a trace\<close>

text \<open>
  The date ranges of the export requests of a trace, and the paths of its writes
  (finished or broken off), in order.
\<close>

fun exports :: "event list \<Rightarrow> (datetime \<times> datetime) list" where
  "exports [] = []"
| "exports (Export i s e t m # evs) = (s, e) # exports evs"
| "exports (_ # evs) = exports evs"

fun writes :: "event list \<Rightarrow> string list" where
  "writes [] = []"
| "writes (WriteCsv p # evs) = p # writes evs"
| "writes (WritePickle p # evs) = p # writes evs"
| "writes (WriteFailed p # evs) = p # writes evs"
| "writes (_ # evs) = writes evs"

text \<open>
  The key events of a trace: lookups, finished writes, sleeps and logged export
  errors. Every contract starts with its lookup, so the key events between two
  lookups belong to one contract.
\<close>

fun is_lookup :: "event \<Rightarrow> bool" where
  "is_lookup (Lookup c m) = True"
| "is_lookup _ = False"

fun is_write :: "event \<Rightarrow> bool" where
  "is_write (WriteCsv p) = True"
| "is_write (WritePickle p) = True"
| "is_write _ = False"

fun is_sleep :: "event \<Rightarrow> bool" where
  "is_sleep (Sleep n) = True"
| "is_sleep _ = False"

fun is_export_failed :: "event \<Rightarrow> bool" where
  "is_export_failed (LogError (ExportFailed e)) = True"
| "is_export_failed _ = False"

definition key_events :: "event list \<Rightarrow> event list" where
  "key_events evs = filter (\<lambda>e. is_lookup e \<or> is_write e \<or> is_sleep e \<or> is_export_failed e) evs"

text \<open>
  \<open>each_followed_by P Q\<close>: every element with \<open>P\<close> has a next element, and that one has
  \<open>Q\<close>. \<open>never_followed_by P Q\<close>: no element with \<open>P\<close> is directly followed by one with
  \<open>Q\<close>.
\<close>

fun each_followed_by :: "('a \<Rightarrow> bool) \<Rightarrow> ('a \<Rightarrow> bool) \<Rightarrow> 'a list \<Rightarrow> bool" where
  "each_followed_by P Q [] = True"
| "each_followed_by P Q [x] = (\<not> P x)"
| "each_followed_by P Q (x # y # zs) = ((P x \<longrightarrow> Q y) \<and> each_followed_by P Q (y # zs))"

fun never_followed_by :: "('a \<Rightarrow> bool) \<Rightarrow> ('a \<Rightarrow> bool) \<Rightarrow> 'a list \<Rightarrow> bool" where
  "never_followed_by P Q [] = True"
| "never_followed_by P Q [x] = True"
| "never_followed_by P Q (x # y # zs) = (\<not> (P x \<and> Q y) \<and> never_followed_by P Q (y # zs))"

text \<open>A \<^verbatim>\<open>click.BadParameter\<close> is the script's configuration error.\<close>

fun is_bad_parameter :: "error \<Rightarrow> bool" where
  "is_bad_parameter (BadParameter m) = True"
| "is_bad_parameter _ = False"

fun rejected :: "outcome \<Rightarrow> bool" where
  "rejected (Raised e) = is_bad_parameter e"
| "rejected Completed = False"


text \<open>
  For the proofs about pauses: the key events that one contract contributes, and the
  invariant of the key events of a whole run.
\<close>

definition sleeps :: "config \<Rightarrow> event list" where
  "sleeps cfg = (if 0 < delay cfg then [Sleep (delay cfg)] else [])"

definition step_keys :: "config \<Rightarrow> event list \<Rightarrow> bool" where
  "step_keys cfg ks =
     (\<exists>l t. ks = l # t \<and> is_lookup l \<and>
        (t = [] \<or> (\<exists>e. t = [LogError (ExportFailed e)]) \<or>
         (\<exists>w. is_write w \<and> t = w # sleeps cfg) \<or> t = sleeps cfg))"

definition paced :: "config \<Rightarrow> event list \<Rightarrow> bool" where
  "paced cfg ks =
     ((ks = [] \<or> is_lookup (hd ks)) \<and>
      (0 < delay cfg \<longrightarrow>
         each_followed_by is_write (\<lambda>e. e = Sleep (delay cfg)) ks \<and>
         never_followed_by is_export_failed is_sleep ks \<and>
         never_followed_by is_sleep is_sleep ks) \<and>
      (\<forall>e\<in>set ks. is_sleep e \<longrightarrow> 0 < delay cfg \<and> e = Sleep (delay cfg)))"


subsection \<open>Example runs\<close>

text \<open>
  A small world to run the script in: two contracts, daily bars with a date and a
  price, and a local file for the first contract whose last row is of 2020-01-03.
\<close>

type_synonym bar = "string \<times> nat"

definition demo_lookup :: "string option \<Rightarrow> string option \<Rightarrow> contract list option" where
  "demo_lookup c m =
     (if c = Some ''AAA'' then Some [\<lparr>c_id = 1, c_code = ''AAA'', c_market = 1\<rparr>]
      else if c = Some ''BBB'' then Some [\<lparr>c_id = 2, c_code = ''BBB'', c_market = 1\<rparr>]
      else if c = Some ''CCC'' then Some [\<lparr>c_id = 3, c_code = ''CCC'', c_market = 3\<rparr>]
      else if c = None then Some [\<lparr>c_id = 1, c_code = ''AAA'', c_market = 1\<rparr>, \<lparr>c_id = 2, c_code = ''BBB'', c_market = 1\<rparr>]
      else None)"

definition demo_strptime :: "string \<Rightarrow> datetime option" where
  "demo_strptime s =
     (if s = ''20200102'' then Some (Datetime 2020 1 2)
      else if s = ''20200103'' then Some (Datetime 2020 1 3)
      else if s = ''20200104'' then Some (Datetime 2020 1 4)
      else None)"

definition demo_env :: "(nat \<Rightarrow> datetime \<Rightarrow> datetime \<Rightarrow> string \<Rightarrow> nat \<Rightarrow> string + bar frame) \<Rightarrow> (string \<Rightarrow> bool) \<Rightarrow> bar env" where
  "demo_env dl wb = \<lparr>lookup = demo_lookup, download = dl, date_str = fst, strptime = demo_strptime,
     is_market = (\<lambda>m. m = 1), write_breaks = wb\<rparr>"

definition demo_cfg :: config where
  "demo_cfg = \<lparr>contracts = Some [''AAA''], market = None, timeframe = ''DAILY'', destdir = ''/data'',
     lineterm = [CHR 0x0D, CHR 0x0A], delay = 1, startdate = Datetime 2020 1 1, enddate = Datetime 2020 1 5,
     skiperr = True, ext = ''csv'', fileformat = ''PKL'', append_arg = Some Choice_y\<rparr>"

definition demo_cfg2 :: config where
  "demo_cfg2 = demo_cfg\<lparr>contracts := Some [''AAA'', ''BBB'']\<rparr>"

definition demo_local :: "bar frame" where
  "demo_local = [(0, (''20200102'', 10)), (1, (''20200103'', 11))]"

definition demo_data :: "bar frame" where
  "demo_data = [(0, (''20200103'', 11)), (1, (''20200104'', 12))]"

definition demo_ticks :: "bar frame" where
  "demo_ticks = [(0, (''20200104'', 12)), (1, (''20200104'', 12))]"

definition demo_files :: "bar files" where
  "demo_files = [''/data/AAA-DAILY.pkl'' \<mapsto> PickleFile None demo_local]"

definition demo_download :: "nat \<Rightarrow> datetime \<Rightarrow> datetime \<Rightarrow> string \<Rightarrow> nat \<Rightarrow> string + bar frame" where
  "demo_download i s e t m = (if i = 1 then Inr demo_data else Inr demo_ticks)"

definition demo_failing :: "nat \<Rightarrow> datetime \<Rightarrow> datetime \<Rightarrow> string \<Rightarrow> nat \<Rightarrow> string + bar frame" where
  "demo_failing i s e t m = (if i = 1 then Inl ''throttled'' else Inr demo_data)"


section \<open>Properties\<close>

subsection \<open>Removing duplicates\<close>

lemma dd_from_Nil: "dd_from seen [] = []" by (simp add: dd_from_def)

lemma dd_from_Cons:
  "dd_from seen (x # xs) = (if snd x \<in> set seen then dd_from (snd x # seen) xs else x # dd_from (snd x # seen) xs)"
  by (simp add: dd_from_def)

lemma duplicated_set: "set s = set s' \<Longrightarrow> duplicated s xs = duplicated s' xs"
  by (induction xs arbitrary: s s') auto

lemma dd_from_set: "set s = set s' \<Longrightarrow> dd_from s xs = dd_from s' xs"
  by (simp add: dd_from_def duplicated_set[of s s'])

lemma dd_from_append:
  "dd_from seen (xs @ ys) = dd_from seen xs @ dd_from (rev (map snd xs) @ seen) ys"
proof (induction xs arbitrary: seen)
  case Nil show ?case by (simp add: dd_from_Nil)
next
  case (Cons x xs)
  from Cons[of "snd x # seen"] show ?case by (simp add: dd_from_Cons)
qed

lemma dd_from_values:
  "distinct (map snd (dd_from seen xs)) \<and> set (map snd (dd_from seen xs)) = snd ` set xs - set seen"
proof (induction xs arbitrary: seen)
  case Nil show ?case by (simp add: dd_from_Nil)
next
  case (Cons x xs)
  let ?r = "dd_from (snd x # seen) xs"
  have d: "distinct (map snd ?r)" and s: "set (map snd ?r) = snd ` set xs - set (snd x # seen)"
    using Cons[of "snd x # seen"] by blast+
  show ?case
  proof (cases "snd x \<in> set seen")
    case True
    then have "dd_from seen (x # xs) = ?r" by (simp add: dd_from_Cons)
    moreover from True have "snd ` set (x # xs) - set seen = snd ` set xs - set (snd x # seen)" by auto
    ultimately show ?thesis using d s by simp
  next
    case False
    then have e: "dd_from seen (x # xs) = x # ?r" by (simp add: dd_from_Cons)
    have n: "snd x \<notin> set (map snd ?r)" unfolding s by simp
    from False have "insert (snd x) (snd ` set xs - set (snd x # seen)) = snd ` set (x # xs) - set seen" by auto
    then show ?thesis unfolding e using d n s by simp
  qed
qed

lemma dd_from_fixed:
  "distinct (map snd xs) \<Longrightarrow> snd ` set xs \<inter> set seen = {} \<Longrightarrow> dd_from seen xs = xs"
proof (induction xs arbitrary: seen)
  case Nil show ?case by (simp add: dd_from_Nil)
next
  case (Cons x xs)
  then show ?case by (auto simp add: dd_from_Cons)
qed

lemma dd_from_all_seen: "snd ` set ys \<subseteq> set seen \<Longrightarrow> dd_from seen ys = []"
proof (induction ys arbitrary: seen)
  case Nil show ?case by (simp add: dd_from_Nil)
next
  case (Cons y ys)
  have "snd ` set ys \<subseteq> set (snd y # seen)" using Cons.prems by auto
  then have "dd_from (snd y # seen) ys = []" by (rule Cons.IH)
  moreover have "snd y \<in> set seen" using Cons.prems by simp
  ultimately show ?case by (simp add: dd_from_Cons)
qed

lemma dd_from_length: "length (dd_from seen xs) \<le> length xs"
proof -
  have "length (dd_from seen xs) \<le> length (zip xs (duplicated seen xs))"
    unfolding dd_from_def length_map by (rule length_filter_le)
  also have "\<dots> \<le> length xs" by simp
  finally show ?thesis .
qed

lemma drop_duplicates_dd: "drop_duplicates df = dd_from [] df"
  by (simp add: drop_duplicates_def dd_from_def)


lemma drop_duplicates_snoc:
  "drop_duplicates (xs @ [x]) = drop_duplicates xs @ (if snd x \<in> snd ` set xs then [] else [x])"
  by (simp add: drop_duplicates_dd dd_from_append dd_from_Cons dd_from_Nil)

lemma spec_dedup_snoc:
  "spec_dedup (xs @ [x]) = spec_dedup xs @ (if snd x \<in> snd ` set xs then [] else [x])"
proof -
  let ?ys = "xs @ [x]"
  let ?P = "\<lambda>zs i. \<forall>j<i. snd (zs ! j) \<noteq> snd (zs ! i)"
  have old: "?P ?ys i = ?P xs i" if "i < length xs" for i
    using that by (simp add: nth_append)
  have a: "filter (?P ?ys) [0..<length xs] = filter (?P xs) [0..<length xs]"
    by (rule filter_cong) (simp_all add: old)
  have m: "map ((!) ?ys) (filter (?P xs) [0..<length xs]) = map ((!) xs) (filter (?P xs) [0..<length xs])"
    by (rule map_cong) (simp_all add: nth_append)
  have b: "?P ?ys (length xs) \<longleftrightarrow> snd x \<notin> snd ` set xs"
  proof
    assume h: "?P ?ys (length xs)"
    show "snd x \<notin> snd ` set xs"
    proof
      assume "snd x \<in> snd ` set xs"
      then obtain y where y: "y \<in> set xs" "snd y = snd x" by auto
      then obtain j where j: "j < length xs" "xs ! j = y" by (auto simp add: in_set_conv_nth)
      from h j have "snd (?ys ! j) \<noteq> snd (?ys ! length xs)" by blast
      with j y show False by (simp add: nth_append)
    qed
  next
    assume h: "snd x \<notin> snd ` set xs"
    show "?P ?ys (length xs)"
    proof (intro allI impI)
      fix j assume j: "j < length xs"
      then have "xs ! j \<in> set xs" by simp
      then have "snd (xs ! j) \<in> snd ` set xs" by (rule imageI)
      with h have "snd (xs ! j) \<noteq> snd x" by metis
      with j show "snd (?ys ! j) \<noteq> snd (?ys ! length xs)" by (simp add: nth_append)
    qed
  qed
  have "spec_dedup ?ys = map ((!) ?ys) (filter (?P ?ys) [0..<length xs]) @ map ((!) ?ys) (filter (?P ?ys) [length xs])"
    unfolding spec_dedup_def by simp
  also have "map ((!) ?ys) (filter (?P ?ys) [0..<length xs]) = spec_dedup xs"
    unfolding spec_dedup_def a m ..
  also have "map ((!) ?ys) (filter (?P ?ys) [length xs]) = (if snd x \<in> snd ` set xs then [] else [x])"
    using b by simp
  finally show ?thesis .
qed

lemma drop_duplicates_spec: "drop_duplicates df = spec_dedup df"
proof (induction df rule: rev_induct)
  case Nil show ?case by (simp add: drop_duplicates_def spec_dedup_def)
next
  case (snoc x xs) then show ?case by (simp only: drop_duplicates_snoc spec_dedup_snoc)
qed

lemma merge_idem: "drop_duplicates (drop_duplicates (L @ D) @ D) = drop_duplicates (L @ D)"
proof -
  have v: "distinct (map snd (dd_from [] (L @ D)))" "set (map snd (dd_from [] (L @ D))) = snd ` set (L @ D)"
    using dd_from_values[of "[]" "L @ D"] by auto
  have 1: "dd_from [] (dd_from [] (L @ D)) = dd_from [] (L @ D)"
    by (rule dd_from_fixed) (use v in auto)
  have 2: "dd_from (rev (map snd (dd_from [] (L @ D)))) D = []"
    by (rule dd_from_all_seen) (use v in auto)
  show ?thesis by (simp add: drop_duplicates_dd dd_from_append[of "[]" "dd_from [] (L @ D)" D] 1 2)
qed


subsection \<open>One contract\<close>

lemma prepare_Inr:
  assumes "prepare cfg env st code = Inr (c, path, cmpr, L, st1, ev)"
  shows "st_fs st1 = st_fs st"
    and "(path, cmpr) = destpath_compression cfg c"
    and "\<exists>cs. lookup env (Some code) (market_filter cfg) = Some (c # cs)"
    and "append_flag cfg \<or> (L = [] \<and> st1 = st)"
    and "st_fs st path = None \<longrightarrow> L = [] \<and> st1 = st"
    and "\<forall>f. st_fs st path = Some f \<and> append_flag cfg \<longrightarrow>
           read_pickle f = Some L \<and> L \<noteq> [] \<and>
           strptime env (date_str env (snd (last L))) = Some (st_startdate st1) \<and>
           st1 = st\<lparr>st_startdate := st_startdate st1\<rparr>"
  using assms
  by (auto simp add: prepare_def Let_def split: option.splits list.splits if_splits prod.splits)

lemma prepare_found:
  assumes "append_flag cfg"
    and "lookup env (Some code) (market_filter cfg) = Some (c # cs)"
    and "destpath_compression cfg c = (path, cmpr)"
    and "st_fs st path = Some f" and "read_pickle f = Some L" and "L \<noteq> []"
    and "strptime env (date_str env (snd (last L))) = Some d"
  shows "\<exists>ev. prepare cfg env st code = Inr (c, path, cmpr, L, st\<lparr>st_startdate := d\<rparr>, ev)"
  using assms by (cases L) (simp_all add: prepare_def Let_def)

lemma prepare_not_found:
  assumes "lookup env (Some code) (market_filter cfg) = Some (c # cs)"
    and "destpath_compression cfg c = (path, cmpr)"
    and "st_fs st path = None \<or> \<not> append_flag cfg"
  shows "\<exists>ev. prepare cfg env st code = Inr (c, path, cmpr, [], st, ev)"
  using assms by (auto simp add: prepare_def Let_def)

lemma handle_contract_downloaded:
  assumes "prepare cfg env st code = Inr (c, path, cmpr, L, st1, ev)"
    and "is_market env (c_market c)"
    and "download env (c_id c) (st_startdate st1) (enddate cfg) (timeframe cfg) (c_market c) = Inr D"
  shows "handle_contract cfg env st code =
         save cfg env (c, path, cmpr, L, st1,
           ev @ [Export (c_id c) (st_startdate st1) (enddate cfg) (timeframe cfg) (c_market c),
                 LogInfo (LinesDownloaded (length D))]) D"
  using assms by (simp add: handle_contract_def fetch_and_save_def)

lemma save_pickle_append:
  assumes "append_flag cfg" "take 3 (fileformat cfg) = ''PKL''" "\<not> write_breaks env path"
  shows "save cfg env (c, path, cmpr, L, st1, ev) D =
         (Next, st1\<lparr>st_fs := (st_fs st1)(path \<mapsto> PickleFile cmpr (drop_duplicates (L @ D)))\<rparr>,
          ev @ [LogInfo (RecordsAdded (int (length (drop_duplicates (L @ D))) - int (length L)) (length L)),
                WritePickle path, LogInfo (SavedTo path)] @ pause cfg)"
  using assms by (simp add: save_def write_file_def Let_def)

lemma exports_append: "exports (xs @ ys) = exports xs @ exports ys"
  by (induction xs rule: exports.induct) simp_all

lemma writes_append: "writes (xs @ ys) = writes xs @ writes ys"
  by (induction xs rule: writes.induct) simp_all

lemma exports_pause: "exports (pause cfg) = []"
  by (simp add: pause_def)

lemma prepare_events_Inl:
  assumes "prepare cfg env st code = Inl (e, ev)"
  shows "exports ev = []" and "writes ev = []"
    and "\<exists>r. ev = LogInfo (Handling code) # Lookup (Some code) (market_filter cfg) # r"
  using assms
  by (auto simp add: prepare_def Let_def split: option.splits list.splits if_splits prod.splits)

lemma prepare_events_Inr:
  assumes "prepare cfg env st code = Inr (c, path, cmpr, L, st1, ev)"
  shows "exports ev = []" and "writes ev = []"
    and "\<exists>r. ev = LogInfo (Handling code) # Lookup (Some code) (market_filter cfg) # r"
  using assms
  by (auto simp add: prepare_def Let_def split: option.splits list.splits if_splits prod.splits)

lemma save_exports: "exports (snd (snd (save cfg env (c, path, cmpr, L, st1, ev) D))) = exports ev"
  by (simp add: save_def Let_def exports_append exports_pause split: sum.splits prod.splits)

lemma fetch_and_save_exports:
  "exports (snd (snd (fetch_and_save cfg env (c, path, cmpr, L, st1, ev)))) =
   exports ev @ (if is_market env (c_market c) then [(st_startdate st1, enddate cfg)] else [])"
  by (simp add: fetch_and_save_def Let_def save_exports exports_append split: sum.splits)

lemma handle_contract_exports:
  "exports (snd (snd (handle_contract cfg env st code))) = [] \<or>
   (\<exists>s. exports (snd (snd (handle_contract cfg env st code))) = [(s, enddate cfg)])"
proof (cases "prepare cfg env st code")
  case (Inl a)
  then show ?thesis using prepare_events_Inl(1)[of cfg env st code "fst a" "snd a"]
    by (cases a) (simp add: handle_contract_def)
next
  case (Inr p)
  obtain c path cmpr L st1 ev where p: "p = (c, path, cmpr, L, st1, ev)" by (cases p)
  note e = prepare_events_Inr(1)[OF Inr[unfolded p]]
  show ?thesis
    by (simp add: handle_contract_def Inr p fetch_and_save_exports e)
qed












subsection \<open>The loop and the whole run\<close>

lemma run_contracts_exports:
  "snd ` set (exports (snd (snd (run_contracts cfg env st codes)))) \<subseteq> {enddate cfg}"
proof (induction codes arbitrary: st)
  case Nil show ?case by simp
next
  case (Cons code rest)
  obtain r st' ev where h: "handle_contract cfg env st code = (r, st', ev)" by (cases "handle_contract cfg env st code")
  have e: "snd ` set (exports ev) \<subseteq> {enddate cfg}"
    using handle_contract_exports[of cfg env st code] by (auto simp add: h)
  show ?case
  proof (cases r)
    case Next
    obtain r2 st2 ev2 where h2: "run_contracts cfg env st' rest = (r2, st2, ev2)"
      by (cases "run_contracts cfg env st' rest")
    have "snd ` set (exports ev2) \<subseteq> {enddate cfg}" using Cons[of st'] by (simp add: h2)
    with e show ?thesis by (auto simp add: h Next h2 exports_append)
  next
    case (Stop x)
    with e show ?thesis by (simp add: h)
  qed
qed

lemma main_trace:
  "snd (snd (main cfg env files)) = [] \<or>
   snd (snd (main cfg env files)) = [Lookup None (market_filter cfg)] \<or>
   (\<exists>codes. snd (snd (main cfg env files)) =
       snd (snd (run_contracts cfg env \<lparr>st_startdate = startdate cfg, st_fs = files\<rparr> codes)) \<or>
      snd (snd (main cfg env files)) =
       Lookup None (market_filter cfg) #
       snd (snd (run_contracts cfg env \<lparr>st_startdate = startdate cfg, st_fs = files\<rparr> codes)))"
  by (simp add: main_def Let_def split_beta split: option.splits) blast

lemma main_exports:
  "snd ` set (exports (snd (snd (main cfg env files)))) \<subseteq> {enddate cfg}"
  using main_trace[of cfg env files] run_contracts_exports[of cfg env]
  by (elim disjE exE) simp_all





subsection \<open>Key events and pauses\<close>

lemma is_lookup_only: "is_lookup l \<Longrightarrow> \<not> is_write l \<and> \<not> is_sleep l \<and> \<not> is_export_failed l"
  by (cases l) simp_all

lemma is_write_only: "is_write w \<Longrightarrow> \<not> is_sleep w \<and> \<not> is_export_failed w \<and> \<not> is_lookup w"
  by (cases w) simp_all

lemma key_events_Nil: "key_events [] = []"
  by (simp add: key_events_def)

lemma key_events_Cons:
  "key_events (e # es) =
     (if is_lookup e \<or> is_write e \<or> is_sleep e \<or> is_export_failed e then e # key_events es
      else key_events es)"
  by (simp add: key_events_def)

lemma key_events_append: "key_events (xs @ ys) = key_events xs @ key_events ys"
  by (simp add: key_events_def)

lemma key_events_pause: "key_events (pause cfg) = sleeps cfg"
  by (simp add: key_events_def pause_def sleeps_def)

lemma paced_Nil: "paced cfg []"
  by (simp add: paced_def)

lemma paced_lookup: "is_lookup l \<Longrightarrow> paced cfg ks \<Longrightarrow> paced cfg (l # ks)"
  by (cases ks) (auto simp add: paced_def dest: is_lookup_only)

lemma paced_step:
  assumes "step_keys cfg ks" and "paced cfg ks'"
  shows "paced cfg (ks @ ks')"
proof -
  from assms(1) obtain l t where k: "ks = l # t" "is_lookup l"
    and t: "t = [] \<or> (\<exists>e. t = [LogError (ExportFailed e)]) \<or>
         (\<exists>w. is_write w \<and> t = w # sleeps cfg) \<or> t = sleeps cfg"
    unfolding step_keys_def by blast
  have l: "\<not> is_write l" "\<not> is_sleep l" "\<not> is_export_failed l"
    using is_lookup_only[OF k(2)] by simp_all
  consider (empty) "ks' = []" | (more) l' t' where "ks' = l' # t'" "is_lookup l'"
    using assms(2) by (cases ks') (auto simp add: paced_def)
  then show ?thesis
  proof cases
    case empty
    from t show ?thesis
    proof (elim disjE exE conjE)
      assume "t = []" then show ?thesis using k l empty by (simp add: paced_def)
    next
      fix e assume "t = [LogError (ExportFailed e)]"
      then show ?thesis using k l empty by (simp add: paced_def)
    next
      fix w assume "is_write w" "t = w # sleeps cfg"
      then show ?thesis using k l empty is_write_only[of w]
        by (auto simp add: paced_def sleeps_def)
    next
      assume "t = sleeps cfg"
      then show ?thesis using k l empty by (auto simp add: paced_def sleeps_def)
    qed
  next
    case more
    have l': "\<not> is_write l'" "\<not> is_sleep l'" "\<not> is_export_failed l'"
      using is_lookup_only[OF more(2)] by simp_all
    have p: "0 < delay cfg \<Longrightarrow> each_followed_by is_write (\<lambda>e. e = Sleep (delay cfg)) (l' # t')"
      "0 < delay cfg \<Longrightarrow> never_followed_by is_export_failed is_sleep (l' # t')"
      "0 < delay cfg \<Longrightarrow> never_followed_by is_sleep is_sleep (l' # t')"
      "\<forall>e\<in>set t'. is_sleep e \<longrightarrow> 0 < delay cfg \<and> e = Sleep (delay cfg)"
      using assms(2) more(1) by (simp_all add: paced_def)
    from t show ?thesis
    proof (elim disjE exE conjE)
      assume "t = []" then show ?thesis using k l l' more p by (simp add: paced_def)
    next
      fix e assume "t = [LogError (ExportFailed e)]"
      then show ?thesis using k l l' more p by (simp add: paced_def)
    next
      fix w assume "is_write w" "t = w # sleeps cfg"
      then show ?thesis using k l l' more p is_write_only[of w]
        by (auto simp add: paced_def sleeps_def)
    next
      assume "t = sleeps cfg"
      then show ?thesis using k l l' more p by (auto simp add: paced_def sleeps_def)
    qed
  qed
qed

lemma prepare_keys_Inl:
  assumes "prepare cfg env st code = Inl (e, ev)"
  shows "key_events ev = [Lookup (Some code) (market_filter cfg)]"
  using assms
  by (auto simp add: prepare_def Let_def key_events_def split: option.splits list.splits if_splits prod.splits)

lemma prepare_keys_Inr:
  assumes "prepare cfg env st code = Inr (c, path, cmpr, L, st1, ev)"
  shows "key_events ev = [Lookup (Some code) (market_filter cfg)]"
  using assms
  by (auto simp add: prepare_def Let_def key_events_def split: option.splits list.splits if_splits prod.splits)

lemma save_keys:
  "\<exists>t. key_events (snd (snd (save cfg env (c, path, cmpr, L, st1, ev) D))) = key_events ev @ t \<and>
       (t = [] \<or> (\<exists>w. is_write w \<and> t = w # sleeps cfg) \<or> t = sleeps cfg)"
  by (auto simp add: save_def Let_def key_events_append key_events_pause key_events_Cons key_events_Nil
      split_beta split: sum.splits)

lemma fetch_and_save_keys:
  "\<exists>t. key_events (snd (snd (fetch_and_save cfg env (c, path, cmpr, L, st1, ev)))) = key_events ev @ t \<and>
       (t = [] \<or> (\<exists>e. t = [LogError (ExportFailed e)]) \<or>
        (\<exists>w. is_write w \<and> t = w # sleeps cfg) \<or> t = sleeps cfg)"
proof (cases "is_market env (c_market c)")
  case False
  then show ?thesis by (simp add: fetch_and_save_def)
next
  case True
  show ?thesis
  proof (cases "download env (c_id c) (st_startdate st1) (enddate cfg) (timeframe cfg) (c_market c)")
  case (Inl e)
  with True show ?thesis
    by (simp add: fetch_and_save_def Let_def key_events_append key_events_Cons key_events_Nil)
next
  case (Inr D)
  let ?ev = "ev @ [Export (c_id c) (st_startdate st1) (enddate cfg) (timeframe cfg) (c_market c),
                   LogInfo (LinesDownloaded (length D))]"
  have k: "key_events ?ev = key_events ev"
    by (simp add: key_events_append key_events_Cons key_events_Nil)
  from save_keys[of cfg env c path cmpr L st1 ?ev D] Inr True show ?thesis
    by (simp add: fetch_and_save_def Let_def k) blast
qed
qed

lemma handle_contract_keys: "step_keys cfg (key_events (snd (snd (handle_contract cfg env st code))))"
proof (cases "prepare cfg env st code")
  case (Inl a)
  then show ?thesis using prepare_keys_Inl[of cfg env st code "fst a" "snd a"]
    by (cases a) (simp add: handle_contract_def step_keys_def)
next
  case (Inr p)
  obtain c path cmpr L st1 ev where p: "p = (c, path, cmpr, L, st1, ev)" by (cases p)
  from fetch_and_save_keys[of cfg env c path cmpr L st1 ev]
  show ?thesis
    by (simp add: handle_contract_def Inr p prepare_keys_Inr[OF Inr[unfolded p]] step_keys_def)
       (metis is_lookup.simps(1))
qed

lemma run_contracts_paced: "paced cfg (key_events (snd (snd (run_contracts cfg env st codes))))"
proof (induction codes arbitrary: st)
  case Nil show ?case by (simp add: key_events_def paced_Nil)
next
  case (Cons code rest)
  obtain r st' ev where h: "handle_contract cfg env st code = (r, st', ev)"
    by (cases "handle_contract cfg env st code")
  have s: "step_keys cfg (key_events ev)" using handle_contract_keys[of cfg env st code] by (simp add: h)
  show ?case
  proof (cases r)
    case Next
    from paced_step[OF s Cons[of st']] show ?thesis
      by (simp add: h Next key_events_append split_beta)
  next
    case (Stop x)
    from paced_step[OF s paced_Nil] show ?thesis by (simp add: h Stop)
  qed
qed

lemma main_paced: "paced cfg (key_events (snd (snd (main cfg env files))))"
  using main_trace[of cfg env files] run_contracts_paced[of cfg env]
    paced_lookup[of "Lookup None (market_filter cfg)" cfg]
  by (elim disjE exE) (simp_all add: key_events_def paced_Nil)


subsection \<open>The example runs\<close>

lemmas demo_defs =
  main_def handle_contract_def prepare_def fetch_and_save_def save_def write_file_def pause_def
  destpath_compression_def os_path_join_def read_pickle_def append_flag_def market_filter_def
  truthy_def contract_codes_def drop_duplicates_def Let_def
  demo_cfg_def demo_cfg2_def demo_env_def demo_lookup_def demo_strptime_def demo_files_def
  demo_local_def demo_data_def demo_ticks_def demo_download_def demo_failing_def

lemma demo_prepare:
  "prepare demo_cfg (demo_env dl wb) \<lparr>st_startdate = Datetime 2020 1 1, st_fs = demo_files\<rparr> ''AAA'' =
     Inr (\<lparr>c_id = 1, c_code = ''AAA'', c_market = 1\<rparr>, ''/data/AAA-DAILY.pkl'', None, demo_local,
          \<lparr>st_startdate = Datetime 2020 1 3, st_fs = demo_files\<rparr>,
          [LogInfo (Handling ''AAA''), Lookup (Some ''AAA'') None,
           LogInfo (DownloadingContract \<lparr>c_id = 1, c_code = ''AAA'', c_market = 1\<rparr>),
           ReadPickle ''/data/AAA-DAILY.pkl'', LogInfo (FoundLocalFile ''20200103'')])"
  by (simp add: prepare_def demo_cfg_def demo_env_def demo_lookup_def demo_strptime_def demo_files_def
      demo_local_def market_filter_def truthy_def append_flag_def destpath_compression_def os_path_join_def
      read_pickle_def Let_def)

lemma demo_prepare_gen:
  "prepare (demo_cfg\<lparr>skiperr := b\<rparr>) (demo_env dl wb) \<lparr>st_startdate = Datetime 2020 1 1, st_fs = demo_files\<rparr> ''AAA'' =
     Inr (\<lparr>c_id = 1, c_code = ''AAA'', c_market = 1\<rparr>, ''/data/AAA-DAILY.pkl'', None, demo_local,
          \<lparr>st_startdate = Datetime 2020 1 3, st_fs = demo_files\<rparr>,
          [LogInfo (Handling ''AAA''), Lookup (Some ''AAA'') None,
           LogInfo (DownloadingContract \<lparr>c_id = 1, c_code = ''AAA'', c_market = 1\<rparr>),
           ReadPickle ''/data/AAA-DAILY.pkl'', LogInfo (FoundLocalFile ''20200103'')])"
  by (simp add: demo_defs)

lemma demo_merge:
  "spec_merge demo_local demo_data = [(0, (''20200102'', 10)), (1, (''20200103'', 11)), (1, (''20200104'', 12))]"
  by (simp add: spec_merge_def drop_duplicates_spec[symmetric] drop_duplicates_def demo_local_def demo_data_def)


section \<open>The claims\<close>

subsection \<open>C1: the merge of append mode\<close>

text \<open>
  Claim C1. In append mode with a pickle format (lines 170-177), let \<open>L\<close> be the local
  frame (the one read from the destination, or the empty frame when there is no
  file) and \<open>D\<close> the frame that the export request returns (the request is made: the
  market of the lookup row is a member of \<^verbatim>\<open>Market\<close>). When the write does not break
  off, the contract is handled without error and the file written holds \<open>spec_merge L D\<close>: \<open>L\<close> followed by
  \<open>D\<close>, every row whose columns equal those of an earlier row removed, the others in
  their positions. No two rows of the result have the same columns, the result has
  at most \<open>|L| + |D|\<close> rows, and the count that is logged is the number of rows of the
  result minus \<open>|L|\<close> (an integer, negative when \<open>L\<close> itself held duplicates).
\<close>

theorem append_persist_merges:
  assumes "append_flag cfg" and "take 3 (fileformat cfg) = ''PKL''"
    and "prepare cfg env st code = Inr (c, path, cmpr, L, st1, ev)"
    and "is_market env (c_market c)"
    and "download env (c_id c) (st_startdate st1) (enddate cfg) (timeframe cfg) (c_market c) = Inr D"
    and "\<not> write_breaks env path"
  shows "(case st_fs st path of None \<Rightarrow> L = [] | Some f \<Rightarrow> read_pickle f = Some L) \<and>
         (\<exists>ev'. handle_contract cfg env st code =
            (Next, st1\<lparr>st_fs := (st_fs st)(path \<mapsto> PickleFile cmpr (spec_merge L D))\<rparr>, ev') \<and>
            LogInfo (RecordsAdded (int (length (spec_merge L D)) - int (length L)) (length L)) \<in> set ev') \<and>
         distinct (map snd (spec_merge L D)) \<and>
         length (spec_merge L D) \<le> length L + length D"
proof -
  have m: "spec_merge L D = drop_duplicates (L @ D)"
    by (simp add: spec_merge_def drop_duplicates_spec)
  have 1: "case st_fs st path of None \<Rightarrow> L = [] | Some f \<Rightarrow> read_pickle f = Some L"
    using prepare_Inr(5,6)[OF assms(3)] assms(1) by (simp split: option.splits)
  have fs: "st_fs st1 = st_fs st" by (rule prepare_Inr(1)[OF assms(3)])
  have 2: "handle_contract cfg env st code =
      (Next, st1\<lparr>st_fs := (st_fs st)(path \<mapsto> PickleFile cmpr (spec_merge L D))\<rparr>,
       (ev @ [Export (c_id c) (st_startdate st1) (enddate cfg) (timeframe cfg) (c_market c),
              LogInfo (LinesDownloaded (length D))]) @
          [LogInfo (RecordsAdded (int (length (spec_merge L D)) - int (length L)) (length L)),
           WritePickle path, LogInfo (SavedTo path)] @ pause cfg)"
    unfolding handle_contract_downloaded[OF assms(3,4,5)] save_pickle_append[OF assms(1,2,6)] m fs ..
  have 3: "distinct (map snd (spec_merge L D))"
    unfolding m drop_duplicates_dd using dd_from_values[of "[]" "L @ D"] by blast
  have 4: "length (spec_merge L D) \<le> length L + length D"
    unfolding m drop_duplicates_dd using dd_from_length[of "[]" "L @ D"] by simp
  from 2 have "\<exists>ev'. handle_contract cfg env st code =
            (Next, st1\<lparr>st_fs := (st_fs st)(path \<mapsto> PickleFile cmpr (spec_merge L D))\<rparr>, ev') \<and>
            LogInfo (RecordsAdded (int (length (spec_merge L D)) - int (length L)) (length L)) \<in> set ev'"
    by simp
  with 1 3 4 show ?thesis by blast
qed

theorem append_persist_merges_witness:
  "(\<exists>ev'. handle_contract demo_cfg (demo_env (\<lambda>i s e t m. Inr demo_data) (\<lambda>p. False))
            \<lparr>st_startdate = Datetime 2020 1 1, st_fs = demo_files\<rparr> ''AAA'' =
          (Next, \<lparr>st_startdate = Datetime 2020 1 3,
                  st_fs = demo_files(''/data/AAA-DAILY.pkl'' \<mapsto> PickleFile None
                    [(0, (''20200102'', 10)), (1, (''20200103'', 11)), (1, (''20200104'', 12))])\<rparr>, ev') \<and>
          LogInfo (RecordsAdded 1 2) \<in> set ev') \<and>
   distinct [(''20200102'', 10::nat), (''20200103'', 11), (''20200104'', 12)] \<and>
   length [(0::nat, (''20200102'', 10::nat)), (1, (''20200103'', 11)), (1, (''20200104'', 12))] \<le> 2 + 2"
proof -
  have 1: "append_flag demo_cfg" by (simp add: append_flag_def demo_cfg_def)
  have 2: "take 3 (fileformat demo_cfg) = ''PKL''" by (simp add: demo_cfg_def)
  have 4: "download (demo_env (\<lambda>i s e t m. Inr demo_data) (\<lambda>p. False)) (c_id \<lparr>c_id = 1, c_code = ''AAA'', c_market = 1\<rparr>)
             (st_startdate \<lparr>st_startdate = Datetime 2020 1 3, st_fs = demo_files\<rparr>) (enddate demo_cfg) (timeframe demo_cfg)
             (c_market \<lparr>c_id = 1, c_code = ''AAA'', c_market = 1\<rparr>) = Inr demo_data"
    by (simp add: demo_env_def)
  have 5: "\<not> write_breaks (demo_env (\<lambda>i s e t m. Inr demo_data) (\<lambda>p. False)) ''/data/AAA-DAILY.pkl''"
    by (simp add: demo_env_def)
  have 6: "is_market (demo_env (\<lambda>i s e t m. Inr demo_data) (\<lambda>p. False))
      (c_market \<lparr>c_id = 1, c_code = ''AAA'', c_market = 1\<rparr>)"
    by (simp add: demo_env_def)
  have n: "int (length (spec_merge demo_local demo_data)) - int (length demo_local) = 1"
    "length demo_local = 2"
    unfolding demo_merge by (simp_all add: demo_local_def)
  from append_persist_merges[OF 1 2 demo_prepare 6 4 5]
  show ?thesis by (simp add: n demo_merge)
qed

subsection \<open>C2: the date range of the export request in append mode\<close>

text \<open>
  Claim C2. In append mode, let the destination file of a contract exist. When the
  file can be loaded, is not empty and its last row carries a date that \<^verbatim>\<open>strptime\<close>
  accepts, and the market of the lookup row is a member of \<^verbatim>\<open>Market\<close>, the contract
  has one export request, and it starts at that date (lines 138-145 and 152-153).
  In every other case the contract has no export request: line 141, 142 or 144
  raises, or \<^verbatim>\<open>Market(contract.market)\<close> raises in line 156 before the exporter is
  called. Whatever the configuration and the files, every export request of a run
  ends at the requested end date (line 154).
\<close>

theorem append_start_is_last_local_date:
  assumes "append_flag cfg"
    and "lookup env (Some code) (market_filter cfg) = Some (c # cs)"
    and "destpath_compression cfg c = (path, cmpr)"
    and "st_fs st path = Some f"
  shows "(case read_pickle f of
            Some (r # rs) \<Rightarrow>
              (case strptime env (date_str env (snd (last (r # rs)))) of
                 Some d \<Rightarrow>
                   exports (snd (snd (handle_contract cfg env st code))) =
                     (if is_market env (c_market c) then [(d, enddate cfg)] else [])
               | None \<Rightarrow> exports (snd (snd (handle_contract cfg env st code))) = [])
          | _ \<Rightarrow> exports (snd (snd (handle_contract cfg env st code))) = []) \<and>
         snd ` set (exports (snd (snd (main cfg env files)))) \<subseteq> {enddate cfg}"
proof -
  have stopped: "exports (snd (snd (handle_contract cfg env st code))) = []"
    if "prepare cfg env st code = Inl (e, ev)" for e ev
    using that prepare_events_Inl(1)[OF that] by (simp add: handle_contract_def)
  have loaded: "exports (snd (snd (handle_contract cfg env st code))) =
      (if is_market env (c_market c) then [(d, enddate cfg)] else [])"
    if h: "read_pickle f = Some L" "L \<noteq> []" "strptime env (date_str env (snd (last L))) = Some d" for L d
  proof -
    obtain ev where p: "prepare cfg env st code = Inr (c, path, cmpr, L, st\<lparr>st_startdate := d\<rparr>, ev)"
      using prepare_found[OF assms h] by blast
    show ?thesis
      by (simp add: handle_contract_def p fetch_and_save_exports prepare_events_Inr(1)[OF p])
  qed
  have 1: "case read_pickle f of
            Some (r # rs) \<Rightarrow>
              (case strptime env (date_str env (snd (last (r # rs)))) of
                 Some d \<Rightarrow>
                   exports (snd (snd (handle_contract cfg env st code))) =
                     (if is_market env (c_market c) then [(d, enddate cfg)] else [])
               | None \<Rightarrow> exports (snd (snd (handle_contract cfg env st code))) = [])
          | _ \<Rightarrow> exports (snd (snd (handle_contract cfg env st code))) = []"
  proof (cases "read_pickle f")
    case None
    with assms have "\<exists>e ev. prepare cfg env st code = Inl (e, ev)"
      by (simp add: prepare_def Let_def)
    with None stopped show ?thesis by auto
  next
    case (Some L)
    show ?thesis
    proof (cases L)
      case Nil
      with Some assms have "\<exists>e ev. prepare cfg env st code = Inl (e, ev)"
        by (simp add: prepare_def Let_def)
      with Some Nil stopped show ?thesis by auto
    next
      case (Cons r rs)
      show ?thesis
      proof (cases "strptime env (date_str env (snd (last (r # rs))))")
        case None
        with Some Cons assms have "\<exists>e ev. prepare cfg env st code = Inl (e, ev)"
          by (simp add: prepare_def Let_def)
        with Some Cons None stopped show ?thesis by auto
      next
        case (Some d)
        from loaded[of L d] \<open>read_pickle f = Some L\<close> Cons Some show ?thesis by simp
      qed
    qed
  qed
  with main_exports[of cfg env files] show ?thesis by simp
qed

theorem append_start_is_last_local_date_witness:
  "exports (snd (snd (handle_contract demo_cfg (demo_env demo_download (\<lambda>p. False))
      \<lparr>st_startdate = Datetime 2020 1 1, st_fs = demo_files\<rparr> ''AAA''))) =
     [(Datetime 2020 1 3, Datetime 2020 1 5)] \<and>
   exports (snd (snd (handle_contract demo_cfg (demo_env demo_download (\<lambda>p. False))
      \<lparr>st_startdate = Datetime 2020 1 1, st_fs = [''/data/AAA-DAILY.pkl'' \<mapsto> PickleFile None []]\<rparr> ''AAA''))) = [] \<and>
   exports (snd (snd (handle_contract demo_cfg (demo_env demo_download (\<lambda>p. False))
      \<lparr>st_startdate = Datetime 2020 1 1, st_fs = [''/data/CCC-DAILY.pkl'' \<mapsto> PickleFile None demo_local]\<rparr>
      ''CCC''))) = [] \<and>
   exports (snd (snd (main demo_cfg (demo_env demo_download (\<lambda>p. False)) demo_files))) =
     [(Datetime 2020 1 3, Datetime 2020 1 5)]"
proof -
  let ?E = "demo_env demo_download (\<lambda>p. False)"
  let ?c = "\<lparr>c_id = 1, c_code = ''AAA'', c_market = 1\<rparr>"
  let ?d = "\<lparr>c_id = 3, c_code = ''CCC'', c_market = 3\<rparr>"
  let ?S = "\<lparr>st_startdate = Datetime 2020 1 1, st_fs = demo_files\<rparr>"
  let ?T = "\<lparr>st_startdate = Datetime 2020 1 1, st_fs = [''/data/AAA-DAILY.pkl'' \<mapsto> PickleFile None []]\<rparr> :: bar state"
  let ?U = "\<lparr>st_startdate = Datetime 2020 1 1, st_fs = [''/data/CCC-DAILY.pkl'' \<mapsto> PickleFile None demo_local]\<rparr>"
  have 1: "append_flag demo_cfg" by (simp add: demo_defs)
  have 2: "lookup ?E (Some ''AAA'') (market_filter demo_cfg) = Some (?c # [])"
    "lookup ?E (Some ''CCC'') (market_filter demo_cfg) = Some (?d # [])"
    by (simp_all add: demo_defs)
  have 3: "destpath_compression demo_cfg ?c = (''/data/AAA-DAILY.pkl'', None)"
    "destpath_compression demo_cfg ?d = (''/data/CCC-DAILY.pkl'', None)"
    by (simp_all add: demo_defs)
  have 4: "st_fs ?S ''/data/AAA-DAILY.pkl'' = Some (PickleFile None demo_local)"
    by (simp add: demo_files_def)
  have 5: "st_fs ?T ''/data/AAA-DAILY.pkl'' = Some (PickleFile None [])" by simp
  have 6: "st_fs ?U ''/data/CCC-DAILY.pkl'' = Some (PickleFile None demo_local)" by simp
  have r: "read_pickle (PickleFile None demo_local) = Some ((0, (''20200102'', 10)) # [(1, (''20200103'', 11))])"
    "read_pickle (PickleFile None ([] :: bar frame)) = Some []"
    by (simp_all add: read_pickle_def demo_local_def)
  have p: "strptime ?E (date_str ?E (''20200103'', 11)) = Some (Datetime 2020 1 3)"
    by (simp add: demo_defs)
  have i: "is_market ?E (c_market ?c)" "\<not> is_market ?E (c_market ?d)"
    by (simp_all add: demo_env_def)
  have e: "enddate demo_cfg = Datetime 2020 1 5" by (simp add: demo_cfg_def)
  have m: "exports (snd (snd (main demo_cfg ?E demo_files))) = [(Datetime 2020 1 3, Datetime 2020 1 5)]"
    by (simp add: demo_defs)
  from append_start_is_last_local_date[OF 1 2(1) 3(1) 4, of demo_files] i(1)
  have a: "exports (snd (snd (handle_contract demo_cfg ?E ?S ''AAA''))) = [(Datetime 2020 1 3, Datetime 2020 1 5)]"
    by (simp add: r p e)
  from append_start_is_last_local_date[OF 1 2(1) 3(1) 5, of demo_files]
  have b: "exports (snd (snd (handle_contract demo_cfg ?E ?T ''AAA''))) = []"
    by (simp add: r)
  from append_start_is_last_local_date[OF 1 2(2) 3(2) 6, of demo_files] i(2)
  have c: "exports (snd (snd (handle_contract demo_cfg ?E ?U ''CCC''))) = []"
    by (simp add: r p)
  from a b c m show ?thesis by blast
qed

subsection \<open>C3: append mode without a local file\<close>

text \<open>
  Claim C3, as amended. In append mode with a pickle format, for a contract without
  a destination file, \<^verbatim>\<open>df_local\<close> is the empty frame and the variable \<^verbatim>\<open>startdate\<close> is
  left as it is (lines 146-148): while it still holds the requested start date, the
  export request (made when the market of the lookup row is a member of \<^verbatim>\<open>Market\<close>)
  starts there. The merge of lines 170-174 runs all the same, so the
  file written holds the downloaded frame with its duplicate rows removed; when the
  downloaded frame has no two rows with the same columns, the resulting state is the
  one of the run without append mode.
\<close>

theorem append_without_local_file:
  assumes "append_flag cfg" and "take 3 (fileformat cfg) = ''PKL''"
    and "lookup env (Some code) (market_filter cfg) = Some (c # cs)"
    and "destpath_compression cfg c = (path, cmpr)"
    and "st_fs st path = None"
    and "st_startdate st = startdate cfg"
    and "is_market env (c_market c)"
    and "download env (c_id c) (startdate cfg) (enddate cfg) (timeframe cfg) (c_market c) = Inr D"
    and "\<not> write_breaks env path"
  shows "exports (snd (snd (handle_contract cfg env st code))) = [(startdate cfg, enddate cfg)] \<and>
         fst (snd (handle_contract cfg env st code)) =
           st\<lparr>st_fs := (st_fs st)(path \<mapsto> PickleFile cmpr (drop_duplicates D))\<rparr> \<and>
         (distinct (map snd D) \<longrightarrow>
            fst (snd (handle_contract cfg env st code)) =
            fst (snd (handle_contract (cfg\<lparr>append_arg := None\<rparr>) env st code)))"
proof -
  obtain ev where p: "prepare cfg env st code = Inr (c, path, cmpr, [], st, ev)"
    using prepare_not_found[OF assms(3,4)] assms(5) by blast
  have d: "download env (c_id c) (st_startdate st) (enddate cfg) (timeframe cfg) (c_market c) = Inr D"
    using assms(6,8) by simp
  have 1: "exports (snd (snd (handle_contract cfg env st code))) = [(startdate cfg, enddate cfg)]"
    by (simp add: handle_contract_def p fetch_and_save_exports prepare_events_Inr(1)[OF p] assms(6,7))
  have 2: "fst (snd (handle_contract cfg env st code)) =
           st\<lparr>st_fs := (st_fs st)(path \<mapsto> PickleFile cmpr (drop_duplicates D))\<rparr>"
    unfolding handle_contract_downloaded[OF p assms(7) d] save_pickle_append[OF assms(1,2,9)] by simp
  let ?cfg = "cfg\<lparr>append_arg := None\<rparr>"
  have na: "\<not> append_flag ?cfg" by (simp add: append_flag_def)
  have "lookup env (Some code) (market_filter ?cfg) = Some (c # cs)"
    using assms(3) by (simp add: market_filter_def split: if_splits)
  moreover have "destpath_compression ?cfg c = (path, cmpr)"
    using assms(4) by (simp add: destpath_compression_def cong: if_cong)
  ultimately obtain ev' where p': "prepare ?cfg env st code = Inr (c, path, cmpr, [], st, ev')"
    using prepare_not_found[of env code ?cfg c cs path cmpr st] na by blast
  have d': "download env (c_id c) (st_startdate st) (enddate ?cfg) (timeframe ?cfg) (c_market c) = Inr D"
    using d by simp
  have 3: "fst (snd (handle_contract ?cfg env st code)) =
           st\<lparr>st_fs := (st_fs st)(path \<mapsto> PickleFile cmpr D)\<rparr>"
    unfolding handle_contract_downloaded[OF p' assms(7) d']
    using na assms(2,9) by (simp add: save_def write_file_def Let_def)
  have 4: "drop_duplicates D = D" if "distinct (map snd D)"
    unfolding drop_duplicates_dd by (rule dd_from_fixed) (use that in simp_all)
  from 1 2 3 4 show ?thesis by simp
qed

theorem append_without_local_file_witness:
  "exports (snd (snd (handle_contract demo_cfg (demo_env demo_download (\<lambda>p. False))
      \<lparr>st_startdate = Datetime 2020 1 1, st_fs = Map.empty\<rparr> ''AAA''))) =
     [(Datetime 2020 1 1, Datetime 2020 1 5)] \<and>
   fst (snd (handle_contract demo_cfg (demo_env demo_download (\<lambda>p. False))
      \<lparr>st_startdate = Datetime 2020 1 1, st_fs = Map.empty\<rparr> ''AAA'')) =
     \<lparr>st_startdate = Datetime 2020 1 1, st_fs = [''/data/AAA-DAILY.pkl'' \<mapsto> PickleFile None demo_data]\<rparr> \<and>
   fst (snd (handle_contract demo_cfg (demo_env demo_download (\<lambda>p. False))
      \<lparr>st_startdate = Datetime 2020 1 1, st_fs = Map.empty\<rparr> ''AAA'')) =
   fst (snd (handle_contract (demo_cfg\<lparr>append_arg := None\<rparr>) (demo_env demo_download (\<lambda>p. False))
      \<lparr>st_startdate = Datetime 2020 1 1, st_fs = Map.empty\<rparr> ''AAA''))"
proof -
  let ?E = "demo_env demo_download (\<lambda>p. False)"
  let ?S = "\<lparr>st_startdate = Datetime 2020 1 1, st_fs = Map.empty\<rparr> :: bar state"
  let ?c = "\<lparr>c_id = 1, c_code = ''AAA'', c_market = 1\<rparr>"
  have 1: "append_flag demo_cfg" by (simp add: demo_defs)
  have 2: "take 3 (fileformat demo_cfg) = ''PKL''" by (simp add: demo_cfg_def)
  have 3: "lookup ?E (Some ''AAA'') (market_filter demo_cfg) = Some (?c # [])" by (simp add: demo_defs)
  have 4: "destpath_compression demo_cfg ?c = (''/data/AAA-DAILY.pkl'', None)" by (simp add: demo_defs)
  have 5: "st_fs ?S ''/data/AAA-DAILY.pkl'' = None" by simp
  have 6: "st_startdate ?S = startdate demo_cfg" by (simp add: demo_cfg_def)
  have 7: "download ?E (c_id ?c) (startdate demo_cfg) (enddate demo_cfg) (timeframe demo_cfg) (c_market ?c) = Inr demo_data"
    by (simp add: demo_defs)
  have 8: "\<not> write_breaks ?E ''/data/AAA-DAILY.pkl''" by (simp add: demo_env_def)
  have 9: "is_market ?E (c_market ?c)" by (simp add: demo_env_def)
  have d: "distinct (map snd demo_data)" "drop_duplicates demo_data = demo_data"
    by (simp_all add: demo_data_def drop_duplicates_def)
  have c: "startdate demo_cfg = Datetime 2020 1 1" "enddate demo_cfg = Datetime 2020 1 5"
    by (simp_all add: demo_cfg_def)
  note t = append_without_local_file[OF 1 2 3 4 5 6 9 7 8]
  from t have x: "exports (snd (snd (handle_contract demo_cfg ?E ?S ''AAA''))) =
     [(Datetime 2020 1 1, Datetime 2020 1 5)]"
    unfolding c by blast
  from t have "fst (snd (handle_contract demo_cfg ?E ?S ''AAA'')) =
     ?S\<lparr>st_fs := (st_fs ?S)(''/data/AAA-DAILY.pkl'' \<mapsto> PickleFile None (drop_duplicates demo_data))\<rparr>"
    by blast
  then have y: "fst (snd (handle_contract demo_cfg ?E ?S ''AAA'')) =
     \<lparr>st_startdate = Datetime 2020 1 1, st_fs = [''/data/AAA-DAILY.pkl'' \<mapsto> PickleFile None demo_data]\<rparr>"
    unfolding d by simp
  from t d(1) have z: "fst (snd (handle_contract demo_cfg ?E ?S ''AAA'')) =
     fst (snd (handle_contract (demo_cfg\<lparr>append_arg := None\<rparr>) ?E ?S ''AAA''))"
    by blast
  from x y z show ?thesis by blast
qed

text \<open>
  The claim as stated, that such a contract is handled as without append mode, fails
  in the run below. The first contract has a local file whose last date is
  2020-01-03; the second has none, and its download holds the same row twice. The
  request for the second contract starts at 2020-01-03, the value that the first
  contract left in \<^verbatim>\<open>startdate\<close>, not at the requested 2020-01-01; and its file holds one
  row where the run without append mode writes two.
\<close>

theorem append_without_local_file_counterexample:
  "append_flag demo_cfg2 \<and> startdate demo_cfg2 = Datetime 2020 1 1 \<and>
   demo_files ''/data/BBB-DAILY.pkl'' = None \<and>
   exports (snd (snd (main demo_cfg2 (demo_env demo_download (\<lambda>p. False)) demo_files))) =
     [(Datetime 2020 1 3, Datetime 2020 1 5), (Datetime 2020 1 3, Datetime 2020 1 5)] \<and>
   fst (snd (main demo_cfg2 (demo_env demo_download (\<lambda>p. False)) demo_files)) ''/data/BBB-DAILY.pkl'' =
     Some (PickleFile None [(0, (''20200104'', 12))]) \<and>
   fst (snd (main (demo_cfg2\<lparr>append_arg := None\<rparr>) (demo_env demo_download (\<lambda>p. False)) demo_files))
     ''/data/BBB-DAILY.pkl'' =
     Some (PickleFile None [(0, (''20200104'', 12)), (1, (''20200104'', 12))])"
  by (simp add: demo_defs)

subsection \<open>C4: the check of contracts and market\<close>




subsection \<open>C5: a failed export\<close>

text \<open>
  Claim C5. Let the export request of a contract be made (the market of the lookup
  row is a member of \<^verbatim>\<open>Market\<close>) and fail with a \<^verbatim>\<open>FinamExportError\<close> (lines 159-164). Nothing has been written for the contract and the files are as
  before. With \<^verbatim>\<open>skiperr\<close> the error is logged and the loop goes on with the remaining
  contracts; without it the error leaves \<^verbatim>\<open>main\<close> at once, and the trace ends with
  the failed request.
\<close>

theorem export_error_skips_or_stops:
  assumes "prepare cfg env st code = Inr (c, path, cmpr, L, st1, ev)"
    and "is_market env (c_market c)"
    and "download env (c_id c) (st_startdate st1) (enddate cfg) (timeframe cfg) (c_market c) = Inl e"
  shows "st_fs st1 = st_fs st \<and>
         writes (ev @ [Export (c_id c) (st_startdate st1) (enddate cfg) (timeframe cfg) (c_market c)]) = [] \<and>
         (skiperr cfg \<longrightarrow>
            run_contracts cfg env st (code # rest) =
              (case run_contracts cfg env st1 rest of
                 (r, st2, ev2) \<Rightarrow>
                   (r, st2, (ev @ [Export (c_id c) (st_startdate st1) (enddate cfg) (timeframe cfg) (c_market c),
                                   LogError (ExportFailed e)]) @ ev2))) \<and>
         (\<not> skiperr cfg \<longrightarrow>
            run_contracts cfg env st (code # rest) =
              (Raised (FinamExportError e), st1,
               ev @ [Export (c_id c) (st_startdate st1) (enddate cfg) (timeframe cfg) (c_market c)]))"
  using assms prepare_Inr(1)[OF assms(1)] prepare_events_Inr(2)[OF assms(1)]
  by (simp add: handle_contract_def fetch_and_save_def writes_append)

theorem export_error_skips_or_stops_witness:
  "run_contracts demo_cfg (demo_env demo_failing (\<lambda>p. False))
      \<lparr>st_startdate = Datetime 2020 1 1, st_fs = demo_files\<rparr> [''AAA'', ''BBB''] =
     (Completed,
      \<lparr>st_startdate = Datetime 2020 1 3,
       st_fs = demo_files(''/data/BBB-DAILY.pkl'' \<mapsto> PickleFile None demo_data)\<rparr>,
      [LogInfo (Handling ''AAA''), Lookup (Some ''AAA'') None,
       LogInfo (DownloadingContract \<lparr>c_id = 1, c_code = ''AAA'', c_market = 1\<rparr>),
       ReadPickle ''/data/AAA-DAILY.pkl'', LogInfo (FoundLocalFile ''20200103''),
       Export 1 (Datetime 2020 1 3) (Datetime 2020 1 5) ''DAILY'' 1,
       LogError (ExportFailed ''throttled''),
       LogInfo (Handling ''BBB''), Lookup (Some ''BBB'') None,
       LogInfo (DownloadingContract \<lparr>c_id = 2, c_code = ''BBB'', c_market = 1\<rparr>),
       LogInfo NoLocalFile,
       Export 2 (Datetime 2020 1 3) (Datetime 2020 1 5) ''DAILY'' 1,
       LogInfo (LinesDownloaded 2), LogInfo (RecordsAdded 2 0),
       WritePickle ''/data/BBB-DAILY.pkl'', LogInfo (SavedTo ''/data/BBB-DAILY.pkl''),
       LogInfo (Sleeping 1), Sleep 1]) \<and>
   run_contracts (demo_cfg\<lparr>skiperr := False\<rparr>) (demo_env demo_failing (\<lambda>p. False))
      \<lparr>st_startdate = Datetime 2020 1 1, st_fs = demo_files\<rparr> [''AAA'', ''BBB''] =
     (Raised (FinamExportError ''throttled''),
      \<lparr>st_startdate = Datetime 2020 1 3, st_fs = demo_files\<rparr>,
      [LogInfo (Handling ''AAA''), Lookup (Some ''AAA'') None,
       LogInfo (DownloadingContract \<lparr>c_id = 1, c_code = ''AAA'', c_market = 1\<rparr>),
       ReadPickle ''/data/AAA-DAILY.pkl'', LogInfo (FoundLocalFile ''20200103''),
       Export 1 (Datetime 2020 1 3) (Datetime 2020 1 5) ''DAILY'' 1])"
proof -
  let ?E = "demo_env demo_failing (\<lambda>p. False)"
  let ?c = "\<lparr>c_id = 1, c_code = ''AAA'', c_market = 1\<rparr>"
  let ?S1 = "\<lparr>st_startdate = Datetime 2020 1 3, st_fs = demo_files\<rparr>"
  have d: "download ?E (c_id ?c) (st_startdate ?S1) (enddate (demo_cfg\<lparr>skiperr := b\<rparr>))
      (timeframe (demo_cfg\<lparr>skiperr := b\<rparr>)) (c_market ?c) = Inl ''throttled''" for b
    by (simp add: demo_defs)
  have i: "is_market ?E (c_market ?c)" by (simp add: demo_env_def)
  have s: "skiperr (demo_cfg\<lparr>skiperr := True\<rparr>)" "\<not> skiperr (demo_cfg\<lparr>skiperr := False\<rparr>)"
    "demo_cfg\<lparr>skiperr := True\<rparr> = demo_cfg"
    by (simp_all add: demo_cfg_def)
  have r: "run_contracts demo_cfg ?E ?S1 [''BBB''] =
     (Completed,
      \<lparr>st_startdate = Datetime 2020 1 3,
       st_fs = demo_files(''/data/BBB-DAILY.pkl'' \<mapsto> PickleFile None demo_data)\<rparr>,
      [LogInfo (Handling ''BBB''), Lookup (Some ''BBB'') None,
       LogInfo (DownloadingContract \<lparr>c_id = 2, c_code = ''BBB'', c_market = 1\<rparr>),
       LogInfo NoLocalFile,
       Export 2 (Datetime 2020 1 3) (Datetime 2020 1 5) ''DAILY'' 1,
       LogInfo (LinesDownloaded 2), LogInfo (RecordsAdded 2 0),
       WritePickle ''/data/BBB-DAILY.pkl'', LogInfo (SavedTo ''/data/BBB-DAILY.pkl''),
       LogInfo (Sleeping 1), Sleep 1])"
    by (simp add: demo_defs)
  have e: "enddate demo_cfg = Datetime 2020 1 5" "timeframe demo_cfg = ''DAILY''"
    "enddate (demo_cfg\<lparr>skiperr := False\<rparr>) = Datetime 2020 1 5"
    "timeframe (demo_cfg\<lparr>skiperr := False\<rparr>) = ''DAILY''"
    by (simp_all add: demo_cfg_def)
  from export_error_skips_or_stops[OF demo_prepare_gen[of True demo_failing "\<lambda>p. False"] i d[of True], of "[''BBB'']"] s
  have a: "run_contracts demo_cfg ?E \<lparr>st_startdate = Datetime 2020 1 1, st_fs = demo_files\<rparr> (''AAA'' # [''BBB'']) =
      (case run_contracts demo_cfg ?E ?S1 [''BBB''] of
         (r, st2, ev2) \<Rightarrow>
           (r, st2, ([LogInfo (Handling ''AAA''), Lookup (Some ''AAA'') None,
              LogInfo (DownloadingContract ?c),
              ReadPickle ''/data/AAA-DAILY.pkl'', LogInfo (FoundLocalFile ''20200103'')] @
             [Export (c_id ?c) (st_startdate ?S1) (enddate demo_cfg) (timeframe demo_cfg) (c_market ?c),
              LogError (ExportFailed ''throttled'')]) @ ev2))"
    by simp
  from export_error_skips_or_stops[OF demo_prepare_gen[of False demo_failing "\<lambda>p. False"] i d[of False], of "[''BBB'']"] s
  have b: "run_contracts (demo_cfg\<lparr>skiperr := False\<rparr>) ?E \<lparr>st_startdate = Datetime 2020 1 1, st_fs = demo_files\<rparr> (''AAA'' # [''BBB'']) =
      (Raised (FinamExportError ''throttled''), ?S1,
       [LogInfo (Handling ''AAA''), Lookup (Some ''AAA'') None,
        LogInfo (DownloadingContract ?c),
        ReadPickle ''/data/AAA-DAILY.pkl'', LogInfo (FoundLocalFile ''20200103'')] @
       [Export (c_id ?c) (st_startdate ?S1) (enddate (demo_cfg\<lparr>skiperr := False\<rparr>))
          (timeframe (demo_cfg\<lparr>skiperr := False\<rparr>)) (c_market ?c)])"
    by simp
  from a b show ?thesis unfolding r e by simp
qed

subsection \<open>C6: the destination path and the compression\<close>

text \<open>
  Claim C6. The destination path is \<^verbatim>\<open>os.path.join(destdir, code-timeframe)\<close>
  followed by the suffix of the format, and the compression is the one of the format
  (lines 121-136): \<^verbatim>\<open>CSV\<close> gives \<^verbatim>\<open>.ext\<close> and no compression, \<^verbatim>\<open>CSVGZ\<close> gives
  \<^verbatim>\<open>.csv.gz\<close> and gzip, \<^verbatim>\<open>PKL\<close> gives \<^verbatim>\<open>.pkl\<close> and no compression, \<^verbatim>\<open>PKLXZ\<close> gives
  \<^verbatim>\<open>.pkl.xz\<close> and xz. For a directory that is not empty and does not end in a slash,
  and a code that does not start with one, the path is the directory, a slash,
  the code, a dash, the timeframe and the suffix. Path and compression are functions
  of these options alone.
\<close>

theorem destination_table:
  "destpath_compression (cfg\<lparr>fileformat := ''CSV''\<rparr>) c =
     (os_path_join (destdir cfg) (c_code c @ ''-'' @ timeframe cfg) @ ''.'' @ ext cfg, None) \<and>
   destpath_compression (cfg\<lparr>fileformat := ''CSVGZ''\<rparr>) c =
     (os_path_join (destdir cfg) (c_code c @ ''-'' @ timeframe cfg) @ ''.csv.gz'', Some ''gzip'') \<and>
   destpath_compression (cfg\<lparr>fileformat := ''PKL''\<rparr>) c =
     (os_path_join (destdir cfg) (c_code c @ ''-'' @ timeframe cfg) @ ''.pkl'', None) \<and>
   destpath_compression (cfg\<lparr>fileformat := ''PKLXZ''\<rparr>) c =
     (os_path_join (destdir cfg) (c_code c @ ''-'' @ timeframe cfg) @ ''.pkl.xz'', Some ''xz'') \<and>
   (destdir cfg \<noteq> [] \<and> last (destdir cfg) \<noteq> CHR ''/'' \<and> take 1 (c_code c) \<noteq> ''/'' \<longrightarrow>
      os_path_join (destdir cfg) (c_code c @ ''-'' @ timeframe cfg) =
      destdir cfg @ ''/'' @ c_code c @ ''-'' @ timeframe cfg)"
proof -
  have "take 1 (c_code c @ ''-'' @ timeframe cfg) \<noteq> ''/''" if "take 1 (c_code c) \<noteq> ''/''"
    using that by (cases "c_code c") simp_all
  then show ?thesis
    by (simp add: destpath_compression_def os_path_join_def)
qed

theorem destination_table_witness:
  "destpath_compression (demo_cfg\<lparr>fileformat := ''CSV''\<rparr>) \<lparr>c_id = 1, c_code = ''AAA'', c_market = 1\<rparr> =
     (''/data/AAA-DAILY.csv'', None) \<and>
   destpath_compression (demo_cfg\<lparr>fileformat := ''CSVGZ''\<rparr>) \<lparr>c_id = 1, c_code = ''AAA'', c_market = 1\<rparr> =
     (''/data/AAA-DAILY.csv.gz'', Some ''gzip'') \<and>
   destpath_compression (demo_cfg\<lparr>fileformat := ''PKL''\<rparr>) \<lparr>c_id = 1, c_code = ''AAA'', c_market = 1\<rparr> =
     (''/data/AAA-DAILY.pkl'', None) \<and>
   destpath_compression (demo_cfg\<lparr>fileformat := ''PKLXZ''\<rparr>) \<lparr>c_id = 1, c_code = ''AAA'', c_market = 1\<rparr> =
     (''/data/AAA-DAILY.pkl.xz'', Some ''xz'')"
proof -
  have h: "destdir demo_cfg \<noteq> [] \<and> last (destdir demo_cfg) \<noteq> CHR ''/'' \<and>
      take 1 (c_code \<lparr>c_id = 1, c_code = ''AAA'', c_market = 1\<rparr>) \<noteq> ''/''"
    by (simp add: demo_cfg_def)
  have v: "destdir demo_cfg = ''/data''" "timeframe demo_cfg = ''DAILY''" "ext demo_cfg = ''csv''"
    by (simp_all add: demo_cfg_def)
  from destination_table[of demo_cfg "\<lparr>c_id = 1, c_code = ''AAA'', c_market = 1\<rparr>"] h
  show ?thesis by (simp add: v)
qed

subsection \<open>C7: merging the same download twice\<close>

text \<open>
  Claim C7. Merging a download \<open>D\<close> into the result of merging \<open>D\<close> into \<open>L\<close> gives that
  result again. For the script: when a contract has been handled in append mode with
  a pickle format, its export request is made (the market of the lookup row is a
  member of \<^verbatim>\<open>Market\<close>) and the exporter answers every request for the contract with
  the same frame \<open>D\<close>, then handling the contract a second time leaves every file as the
  first time left it.
\<close>

theorem append_rerun_same_file:
  assumes "append_flag cfg" and "take 3 (fileformat cfg) = ''PKL''"
    and "prepare cfg env st code = Inr (c, path, cmpr, L, st1, ev)"
    and "is_market env (c_market c)"
    and "\<forall>s. download env (c_id c) s (enddate cfg) (timeframe cfg) (c_market c) = Inr D"
    and "\<not> write_breaks env path"
  shows "drop_duplicates (drop_duplicates (L @ D) @ D) = drop_duplicates (L @ D) \<and>
         st_fs (fst (snd (handle_contract cfg env st code))) path = Some (PickleFile cmpr (drop_duplicates (L @ D))) \<and>
         st_fs (fst (snd (handle_contract cfg env (fst (snd (handle_contract cfg env st code))) code))) =
         st_fs (fst (snd (handle_contract cfg env st code)))"
proof -
  let ?M = "drop_duplicates (L @ D)"
  let ?st' = "st1\<lparr>st_fs := (st_fs st1)(path \<mapsto> PickleFile cmpr ?M)\<rparr>"
  have d: "download env (c_id c) s (enddate cfg) (timeframe cfg) (c_market c) = Inr D" for s
    using assms(5) by blast
  have first: "fst (snd (handle_contract cfg env st code)) = ?st'"
    unfolding handle_contract_downloaded[OF assms(3,4) d] save_pickle_append[OF assms(1,2,6)] by simp
  obtain cs where lk: "lookup env (Some code) (market_filter cfg) = Some (c # cs)"
    using prepare_Inr(3)[OF assms(3)] by blast
  have dp: "destpath_compression cfg c = (path, cmpr)"
    using prepare_Inr(2)[OF assms(3)] by simp
  have fl: "st_fs ?st' path = Some (PickleFile cmpr ?M)" by simp
  have second: "st_fs (fst (snd (handle_contract cfg env ?st' code))) = st_fs ?st'"
  proof (cases "prepare cfg env ?st' code")
    case (Inl a)
    then show ?thesis by (cases a) (simp add: handle_contract_def)
  next
    case (Inr p)
    obtain c2 path2 cmpr2 L2 st2 ev2 where p: "p = (c2, path2, cmpr2, L2, st2, ev2)"
      by (cases p) 
    note pr = Inr[unfolded p]
    have c2: "c2 = c" using prepare_Inr(3)[OF pr] lk by simp
    have p2: "path2 = path" "cmpr2 = cmpr" using prepare_Inr(2)[OF pr] dp c2 by simp_all
    have fs2: "st_fs st2 = st_fs ?st'" by (rule prepare_Inr(1)[OF pr])
    have L2: "L2 = ?M" using prepare_Inr(6)[OF pr] fl assms(1) p2 by (simp add: read_pickle_def)
    have "handle_contract cfg env ?st' code =
         save cfg env (c, path, cmpr, ?M, st2,
           ev2 @ [Export (c_id c) (st_startdate st2) (enddate cfg) (timeframe cfg) (c_market c),
                 LogInfo (LinesDownloaded (length D))]) D"
      using handle_contract_downloaded[OF pr[unfolded c2 p2 L2] assms(4) d] .
    then have "st_fs (fst (snd (handle_contract cfg env ?st' code))) =
         (st_fs ?st')(path \<mapsto> PickleFile cmpr (drop_duplicates (?M @ D)))"
      unfolding save_pickle_append[OF assms(1,2,6)] by (simp add: fs2)
    also have "\<dots> = st_fs ?st'" unfolding merge_idem by (rule fun_upd_idem) simp
    finally show ?thesis .
  qed
  show ?thesis unfolding first using second merge_idem[of L D] by simp
qed

theorem append_rerun_same_file_witness:
  "drop_duplicates (drop_duplicates (demo_local @ demo_data) @ demo_data) =
     [(0, (''20200102'', 10)), (1, (''20200103'', 11)), (1, (''20200104'', 12))] \<and>
   st_fs (fst (snd (handle_contract demo_cfg (demo_env demo_download (\<lambda>p. False))
      \<lparr>st_startdate = Datetime 2020 1 1, st_fs = demo_files\<rparr> ''AAA''))) ''/data/AAA-DAILY.pkl'' =
     Some (PickleFile None [(0, (''20200102'', 10)), (1, (''20200103'', 11)), (1, (''20200104'', 12))]) \<and>
   st_fs (fst (snd (handle_contract demo_cfg (demo_env demo_download (\<lambda>p. False))
      (fst (snd (handle_contract demo_cfg (demo_env demo_download (\<lambda>p. False))
         \<lparr>st_startdate = Datetime 2020 1 1, st_fs = demo_files\<rparr> ''AAA''))) ''AAA''))) =
   st_fs (fst (snd (handle_contract demo_cfg (demo_env demo_download (\<lambda>p. False))
      \<lparr>st_startdate = Datetime 2020 1 1, st_fs = demo_files\<rparr> ''AAA'')))"
proof -
  let ?E = "demo_env demo_download (\<lambda>p. False)"
  let ?c = "\<lparr>c_id = 1, c_code = ''AAA'', c_market = 1\<rparr>"
  have 1: "append_flag demo_cfg" by (simp add: demo_defs)
  have 2: "take 3 (fileformat demo_cfg) = ''PKL''" by (simp add: demo_cfg_def)
  have 4: "\<forall>s. download ?E (c_id ?c) s (enddate demo_cfg) (timeframe demo_cfg) (c_market ?c) = Inr demo_data"
    by (simp add: demo_defs)
  have 5: "\<not> write_breaks ?E ''/data/AAA-DAILY.pkl''" by (simp add: demo_env_def)
  have 6: "is_market ?E (c_market ?c)" by (simp add: demo_env_def)
  have m: "drop_duplicates (demo_local @ demo_data) =
     [(0, (''20200102'', 10)), (1, (''20200103'', 11)), (1, (''20200104'', 12))]"
    by (simp add: demo_local_def demo_data_def drop_duplicates_def)
  note t = append_rerun_same_file[OF 1 2 demo_prepare[of demo_download "\<lambda>p. False"] 6 4 5]
  from t have x: "drop_duplicates (drop_duplicates (demo_local @ demo_data) @ demo_data) =
     [(0, (''20200102'', 10)), (1, (''20200103'', 11)), (1, (''20200104'', 12))]"
    unfolding m by blast
  from t have y: "st_fs (fst (snd (handle_contract demo_cfg ?E
      \<lparr>st_startdate = Datetime 2020 1 1, st_fs = demo_files\<rparr> ''AAA''))) ''/data/AAA-DAILY.pkl'' =
     Some (PickleFile None [(0, (''20200102'', 10)), (1, (''20200103'', 11)), (1, (''20200104'', 12))])"
    unfolding m by blast
  from t have z: "st_fs (fst (snd (handle_contract demo_cfg ?E
      (fst (snd (handle_contract demo_cfg ?E
         \<lparr>st_startdate = Datetime 2020 1 1, st_fs = demo_files\<rparr> ''AAA''))) ''AAA''))) =
   st_fs (fst (snd (handle_contract demo_cfg ?E
      \<lparr>st_startdate = Datetime 2020 1 1, st_fs = demo_files\<rparr> ''AAA'')))"
    by blast
  from x y z show ?thesis by blast
qed

subsection \<open>C8: a write that breaks off\<close>

text \<open>
  Claim C8, as amended. The script hands the destination path itself to \<^verbatim>\<open>to_csv\<close>
  and \<^verbatim>\<open>to_pickle\<close> (lines 168 and 177); there is no temporary file and no rename.
  When the download has succeeded and the write breaks off, the destination holds
  what was written so far in place of its previous content, the other files are as
  before, and the error leaves \<^verbatim>\<open>main\<close>, with \<^verbatim>\<open>skiperr\<close> or without.
\<close>

theorem broken_write_replaces_file:
  assumes "prepare cfg env st code = Inr (c, path, cmpr, L, st1, ev)"
    and "is_market env (c_market c)"
    and "download env (c_id c) (st_startdate st1) (enddate cfg) (timeframe cfg) (c_market c) = Inr D"
    and "write_breaks env path"
    and "take 3 (fileformat cfg) = ''CSV'' \<or> take 3 (fileformat cfg) = ''PKL''"
  shows "fst (handle_contract cfg env st code) = Stop OSError \<and>
         st_fs (fst (snd (handle_contract cfg env st code))) = (st_fs st)(path \<mapsto> PartialFile) \<and>
         fst (run_contracts cfg env st (code # rest)) = Raised OSError \<and>
         st_fs (fst (snd (run_contracts cfg env st (code # rest)))) = (st_fs st)(path \<mapsto> PartialFile)"
proof -
  have fs: "st_fs st1 = st_fs st" by (rule prepare_Inr(1)[OF assms(1)])
  have "\<exists>ev'. handle_contract cfg env st code =
          (Stop OSError, st1\<lparr>st_fs := (st_fs st)(path \<mapsto> PartialFile)\<rparr>, ev')"
    unfolding handle_contract_downloaded[OF assms(1,2,3)]
    using assms(4,5) by (auto simp add: save_def write_file_def Let_def fs split: prod.splits)
  then show ?thesis by auto
qed

theorem broken_write_replaces_file_witness:
  "fst (handle_contract demo_cfg (demo_env demo_download (\<lambda>p. True))
      \<lparr>st_startdate = Datetime 2020 1 1, st_fs = demo_files\<rparr> ''AAA'') = Stop OSError \<and>
   st_fs (fst (snd (handle_contract demo_cfg (demo_env demo_download (\<lambda>p. True))
      \<lparr>st_startdate = Datetime 2020 1 1, st_fs = demo_files\<rparr> ''AAA''))) =
     demo_files(''/data/AAA-DAILY.pkl'' \<mapsto> PartialFile) \<and>
   fst (run_contracts demo_cfg (demo_env demo_download (\<lambda>p. True))
      \<lparr>st_startdate = Datetime 2020 1 1, st_fs = demo_files\<rparr> [''AAA'', ''BBB'']) = Raised OSError \<and>
   st_fs (fst (snd (run_contracts demo_cfg (demo_env demo_download (\<lambda>p. True))
      \<lparr>st_startdate = Datetime 2020 1 1, st_fs = demo_files\<rparr> [''AAA'', ''BBB'']))) =
     demo_files(''/data/AAA-DAILY.pkl'' \<mapsto> PartialFile)"
proof -
  let ?E = "demo_env demo_download (\<lambda>p. True)"
  let ?c = "\<lparr>c_id = 1, c_code = ''AAA'', c_market = 1\<rparr>"
  let ?S1 = "\<lparr>st_startdate = Datetime 2020 1 3, st_fs = demo_files\<rparr>"
  have 2: "download ?E (c_id ?c) (st_startdate ?S1) (enddate demo_cfg) (timeframe demo_cfg) (c_market ?c) = Inr demo_data"
    by (simp add: demo_defs)
  have 3: "write_breaks ?E ''/data/AAA-DAILY.pkl''" by (simp add: demo_env_def)
  have 5: "is_market ?E (c_market ?c)" by (simp add: demo_env_def)
  have 4: "take 3 (fileformat demo_cfg) = ''CSV'' \<or> take 3 (fileformat demo_cfg) = ''PKL''"
    by (simp add: demo_cfg_def)
  from broken_write_replaces_file[OF demo_prepare[of demo_download "\<lambda>p. True"] 5 2 3 4, of "[''BBB'']"]
  show ?thesis by simp
qed

text \<open>
  The claim as stated, that the previous file survives a write that breaks off,
  fails: in the run below the destination held a complete pickle before, and holds a
  partial file afterwards.
\<close>

theorem broken_write_replaces_file_counterexample:
  "demo_files ''/data/AAA-DAILY.pkl'' =
     Some (PickleFile None [(0, (''20200102'', 10)), (1, (''20200103'', 11))]) \<and>
   main demo_cfg (demo_env demo_download (\<lambda>p. p = ''/data/AAA-DAILY.pkl'')) demo_files =
     (Raised OSError,
      demo_files(''/data/AAA-DAILY.pkl'' \<mapsto> PartialFile),
      [LogInfo (Handling ''AAA''), Lookup (Some ''AAA'') None,
       LogInfo (DownloadingContract \<lparr>c_id = 1, c_code = ''AAA'', c_market = 1\<rparr>),
       ReadPickle ''/data/AAA-DAILY.pkl'', LogInfo (FoundLocalFile ''20200103''),
       Export 1 (Datetime 2020 1 3) (Datetime 2020 1 5) ''DAILY'' 1,
       LogInfo (LinesDownloaded 2), LogInfo (RecordsAdded 1 2),
       WriteFailed ''/data/AAA-DAILY.pkl'']) \<and>
   fst (snd (main demo_cfg (demo_env demo_download (\<lambda>p. p = ''/data/AAA-DAILY.pkl'')) demo_files))
     ''/data/AAA-DAILY.pkl'' = Some PartialFile"
  by (simp add: demo_defs)

subsection \<open>C9: a CSV format and the option append\<close>

text \<open>
  Claim C9, as amended. Let the format be of the CSV family and the option
  \<^verbatim>\<open>--append\<close> be given, with \<^verbatim>\<open>y\<close> or with \<^verbatim>\<open>n\<close> (line 101 tests the option, not
  \<^verbatim>\<open>append_flag\<close>). The run is rejected with a \<^verbatim>\<open>BadParameter\<close>, before any lookup or
  export request and with the files untouched; when contracts or a market are given,
  the message is \<^verbatim>\<open>Cannot append to csv file\<close>, and otherwise it is the message of the
  check of lines 98-99. So a run with a CSV format that is not rejected has no option
  \<^verbatim>\<open>--append\<close>.
\<close>

theorem csv_rejected_when_append_given:
  "(take 3 (fileformat cfg) = ''CSV'' \<and> append_arg cfg \<noteq> None \<and>
    (truthy (contracts cfg) \<or> truthy (market cfg)) \<longrightarrow>
      main cfg env files = (Raised (BadParameter ''Cannot append to csv file''), files, [])) \<and>
   (take 3 (fileformat cfg) = ''CSV'' \<and> append_arg cfg \<noteq> None \<and>
    \<not> truthy (contracts cfg) \<and> \<not> truthy (market cfg) \<longrightarrow>
      main cfg env files =
        (Raised (BadParameter ''Neither contracts nor market is specified''), files, [])) \<and>
   (take 3 (fileformat cfg) = ''CSV'' \<and> append_arg cfg \<noteq> None \<longrightarrow>
      rejected (fst (main cfg env files)) \<and> snd (main cfg env files) = (files, [])) \<and>
   (take 3 (fileformat cfg) = ''CSV'' \<and> \<not> rejected (fst (main cfg env files)) \<longrightarrow>
      append_arg cfg = None)"
  by (auto simp add: main_def)

theorem csv_rejected_when_append_given_witness:
  "main (demo_cfg\<lparr>fileformat := ''CSV'', append_arg := Some Choice_n\<rparr>) (demo_env demo_download (\<lambda>p. False)) demo_files =
     (Raised (BadParameter ''Cannot append to csv file''), demo_files, []) \<and>
   main (demo_cfg\<lparr>contracts := None, fileformat := ''CSV'', append_arg := Some Choice_y\<rparr>)
     (demo_env demo_download (\<lambda>p. False)) demo_files =
     (Raised (BadParameter ''Neither contracts nor market is specified''), demo_files, []) \<and>
   rejected (fst (main (demo_cfg\<lparr>fileformat := ''CSVGZ'', append_arg := Some Choice_y\<rparr>)
     (demo_env demo_download (\<lambda>p. False)) demo_files)) \<and>
   snd (main (demo_cfg\<lparr>fileformat := ''CSVGZ'', append_arg := Some Choice_y\<rparr>)
     (demo_env demo_download (\<lambda>p. False)) demo_files) = (demo_files, []) \<and>
   fst (main (demo_cfg\<lparr>fileformat := ''CSV'', append_arg := None\<rparr>) (demo_env demo_download (\<lambda>p. False)) demo_files) =
     Completed \<and>
   append_arg (demo_cfg\<lparr>fileformat := ''CSV'', append_arg := None\<rparr>) = None"
proof -
  let ?E = "demo_env demo_download (\<lambda>p. False)"
  let ?n = "demo_cfg\<lparr>fileformat := ''CSV'', append_arg := Some Choice_n\<rparr>"
  let ?y = "demo_cfg\<lparr>fileformat := ''CSVGZ'', append_arg := Some Choice_y\<rparr>"
  let ?u = "demo_cfg\<lparr>fileformat := ''CSV'', append_arg := None\<rparr>"
  have 1: "take 3 (fileformat ?n) = ''CSV'' \<and> append_arg ?n \<noteq> None \<and>
      (truthy (contracts ?n) \<or> truthy (market ?n))"
    by (simp add: demo_cfg_def truthy_def)
  have 2: "take 3 (fileformat ?y) = ''CSV'' \<and> append_arg ?y \<noteq> None" by simp
  let ?o = "demo_cfg\<lparr>contracts := None, fileformat := ''CSV'', append_arg := Some Choice_y\<rparr>"
  have 4: "take 3 (fileformat ?o) = ''CSV'' \<and> append_arg ?o \<noteq> None \<and>
      \<not> truthy (contracts ?o) \<and> \<not> truthy (market ?o)"
    by (simp add: demo_cfg_def truthy_def)
  from csv_rejected_when_append_given[of ?o ?E demo_files] 4
  have o: "main ?o ?E demo_files =
     (Raised (BadParameter ''Neither contracts nor market is specified''), demo_files, [])"
    by blast
  have c: "fst (main ?u ?E demo_files) = Completed" by (simp add: demo_defs)
  then have 3: "take 3 (fileformat ?u) = ''CSV'' \<and> \<not> rejected (fst (main ?u ?E demo_files))"
    by simp
  from csv_rejected_when_append_given[of ?n ?E demo_files] 1
  have a: "main ?n ?E demo_files = (Raised (BadParameter ''Cannot append to csv file''), demo_files, [])"
    by blast
  from csv_rejected_when_append_given[of ?y ?E demo_files] 2
  have b: "rejected (fst (main ?y ?E demo_files)) \<and> snd (main ?y ?E demo_files) = (demo_files, [])"
    by blast
  from csv_rejected_when_append_given[of ?u ?E demo_files] 3
  have d: "append_arg ?u = None" by blast
  from a o b c d show ?thesis by blast
qed

text \<open>
  The claim as stated, that every such configuration is rejected with \<^verbatim>\<open>Cannot append
  to csv file\<close>, fails when neither contracts nor a market are given: the check of
  lines 98-99 comes first, and the run is rejected with its message.
\<close>

theorem csv_rejected_when_append_given_counterexample:
  "take 3 (fileformat (demo_cfg\<lparr>contracts := None, fileformat := ''CSV'', append_arg := Some Choice_n\<rparr>)) = ''CSV'' \<and>
   append_arg (demo_cfg\<lparr>contracts := None, fileformat := ''CSV'', append_arg := Some Choice_n\<rparr>) = Some Choice_n \<and>
   main (demo_cfg\<lparr>contracts := None, fileformat := ''CSV'', append_arg := Some Choice_n\<rparr>)
     (demo_env demo_download (\<lambda>p. False)) demo_files =
     (Raised (BadParameter ''Neither contracts nor market is specified''), demo_files, []) \<and>
   fst (main (demo_cfg\<lparr>contracts := None, fileformat := ''CSV'', append_arg := Some Choice_n\<rparr>)
     (demo_env demo_download (\<lambda>p. False)) demo_files) \<noteq>
     Raised (BadParameter ''Cannot append to csv file'')"
  by (simp add: demo_defs)

subsection \<open>C10: the pause\<close>

text \<open>
  Claim C10. With a delay above zero, in the key events of any run every finished
  write is directly followed by a sleep of the delay (so also the write of the last
  contract), a logged export error is never directly followed by a sleep, no sleep
  is directly followed by another, and every sleep of the run is of the delay. With a delay of zero (or below) the run never
  sleeps.
\<close>

theorem sleep_after_each_saved_contract:
  "(0 < delay cfg \<longrightarrow>
      each_followed_by is_write (\<lambda>e. e = Sleep (delay cfg)) (key_events (snd (snd (main cfg env files)))) \<and>
      never_followed_by is_export_failed is_sleep (key_events (snd (snd (main cfg env files)))) \<and>
      never_followed_by is_sleep is_sleep (key_events (snd (snd (main cfg env files)))) \<and>
      (\<forall>e\<in>set (snd (snd (main cfg env files))). is_sleep e \<longrightarrow> e = Sleep (delay cfg))) \<and>
   (delay cfg \<le> 0 \<longrightarrow> (\<forall>e\<in>set (snd (snd (main cfg env files))). \<not> is_sleep e))"
proof -
  let ?T = "snd (snd (main cfg env files))"
  have s: "is_sleep e \<Longrightarrow> e \<in> set ?T \<Longrightarrow> e \<in> set (key_events ?T)" for e
    by (simp add: key_events_def)
  from main_paced[of cfg env files] s show ?thesis
    unfolding paced_def by (auto simp add: not_less)
qed

theorem sleep_after_each_saved_contract_witness:
  "key_events (snd (snd (main demo_cfg2 (demo_env demo_failing (\<lambda>p. False)) demo_files))) =
     [Lookup (Some ''AAA'') None, LogError (ExportFailed ''throttled''),
      Lookup (Some ''BBB'') None, WritePickle ''/data/BBB-DAILY.pkl'', Sleep 1] \<and>
   each_followed_by is_write (\<lambda>e. e = Sleep 1)
     (key_events (snd (snd (main demo_cfg2 (demo_env demo_failing (\<lambda>p. False)) demo_files)))) \<and>
   never_followed_by is_export_failed is_sleep
     (key_events (snd (snd (main demo_cfg2 (demo_env demo_failing (\<lambda>p. False)) demo_files)))) \<and>
   never_followed_by is_sleep is_sleep
     (key_events (snd (snd (main demo_cfg2 (demo_env demo_failing (\<lambda>p. False)) demo_files)))) \<and>
   filter is_sleep (snd (snd (main demo_cfg2 (demo_env demo_failing (\<lambda>p. False)) demo_files))) = [Sleep 1] \<and>
   filter is_sleep (snd (snd (main (demo_cfg2\<lparr>delay := 0\<rparr>) (demo_env demo_failing (\<lambda>p. False)) demo_files))) = []"
proof -
  let ?E = "demo_env demo_failing (\<lambda>p. False)"
  have 1: "0 < delay demo_cfg2" "delay demo_cfg2 = 1" by (simp_all add: demo_defs)
  have 2: "delay (demo_cfg2\<lparr>delay := 0\<rparr>) \<le> 0" by simp
  from sleep_after_each_saved_contract[of demo_cfg2 ?E demo_files] 1
  have a: "each_followed_by is_write (\<lambda>e. e = Sleep 1) (key_events (snd (snd (main demo_cfg2 ?E demo_files))))"
    and b: "never_followed_by is_export_failed is_sleep (key_events (snd (snd (main demo_cfg2 ?E demo_files))))"
    and b': "never_followed_by is_sleep is_sleep (key_events (snd (snd (main demo_cfg2 ?E demo_files))))"
    by simp_all
  from sleep_after_each_saved_contract[of "demo_cfg2\<lparr>delay := 0\<rparr>" ?E demo_files] 2
  have "\<forall>e\<in>set (snd (snd (main (demo_cfg2\<lparr>delay := 0\<rparr>) ?E demo_files))). \<not> is_sleep e"
    by blast
  then have c: "filter is_sleep (snd (snd (main (demo_cfg2\<lparr>delay := 0\<rparr>) ?E demo_files))) = []"
    by (simp add: filter_empty_conv)
  have k: "key_events (snd (snd (main demo_cfg2 ?E demo_files))) =
     [Lookup (Some ''AAA'') None, LogError (ExportFailed ''throttled''),
      Lookup (Some ''BBB'') None, WritePickle ''/data/BBB-DAILY.pkl'', Sleep 1]"
    "filter is_sleep (snd (snd (main demo_cfg2 ?E demo_files))) = [Sleep 1]"
    by (simp_all add: demo_defs key_events_def)
  from a b b' c k show ?thesis by blast
qed

end
